theory Spec2Isabelle
  imports Complex_Main "HOL-Library.Log_Nat"
begin

section \<open>Numbers, rounding and JavaScript truthiness\<close>

text \<open>
  The services compute on JavaScript numbers. The model takes a number as a rational: no
  NaN and no infinities. The engines are given twice: first in exact arithmetic, as if
  sums and products had no representation error; then, in the section on the rounding
  arithmetic, with every operation rounded to a double, as the code runs. An optional field
  (\<^verbatim>\<open>x?: number\<close>, \<^verbatim>\<open>number | null\<close>) is an \<open>option\<close>.

  \<^verbatim>\<open>const round2 = (n: number) => Math.round((n + Number.EPSILON) * 100) / 100;\<close>
  \<^verbatim>\<open>Math.round\<close> rounds to the nearest integer, a tie going up; \<^verbatim>\<open>Number.EPSILON\<close>
  is \<open>2\<^sup>-\<^sup>5\<^sup>2\<close>.
\<close>

definition EPSILON :: rat where
  "EPSILON = 1 / 2 ^ 52"

definition Math_round :: "rat \<Rightarrow> int" where
  "Math_round x = \<lfloor>x + 1 / 2\<rfloor>"

definition round2 :: "rat \<Rightarrow> rat" where
  "round2 n = of_int (Math_round ((n + EPSILON) * 100)) / 100"

text \<open>\<^verbatim>\<open>x ?? 0\<close> on an optional number.\<close>

definition nullish0 :: "rat option \<Rightarrow> rat" where
  "nullish0 x = (case x of None \<Rightarrow> 0 | Some v \<Rightarrow> v)"

text \<open>Truthiness of an optional boolean: \<^verbatim>\<open>undefined\<close> is falsy.\<close>

definition truthy :: "bool option \<Rightarrow> bool" where
  "truthy b = (case b of None \<Rightarrow> False | Some v \<Rightarrow> v)"

text \<open>The engine's only failure: \<^verbatim>\<open>throw new Error(...)\<close> on a missing basis.\<close>

datatype error = InvalidInput

section \<open>Multi-country engine (services/simulation.service.ts)\<close>

datatype ImporterProfile = normal | first_import | no_habido | public | amazon

record SimulationOverrides =
  adValoremRate :: "rat option"
  antidumpingUsd :: "rat option"
  countervailingUsd :: "rat option"
  perceptionRate :: "rat option"
  sdaUsd :: "rat option"

text \<open>
  \<^verbatim>\<open>fxRate\<close> is declared \<^verbatim>\<open>number\<close>, but the engine itself tests \<^verbatim>\<open>!input.fxRate\<close>,
  so an absent rate is a value of the model.
\<close>

record SimulationInput =
  hs10 :: string
  originCountry :: string
  useFTA :: "bool option"
  currency :: "string option"
  fxRate :: "rat option"
  cif :: "rat option"
  fob :: "rat option"
  freight :: "rat option"
  insurance :: "rat option"
  quantity :: "rat option"
  quantityUnit :: "string option"
  isUsed :: "bool option"
  importerProfile :: "ImporterProfile option"
  alcoholDegree :: "rat option"

datatype IscSystem = sys_none | sys_ad_valorem | sys_especifico | sys_publico | sys_mixed

text \<open>
  One entry of \<^verbatim>\<open>params.bands\<close>. A field is \<open>None\<close> when the JSON value is not a number
  (\<^verbatim>\<open>typeof b.max_abv === 'number'\<close> fails).
\<close>

record IscBand =
  max_abv :: "rat option"
  specific_per_l_pen :: "rat option"

text \<open>
  \<^verbatim>\<open>params\<close> is \<open>None\<close> when \<^verbatim>\<open>!params || !Array.isArray(params.bands)\<close>, otherwise the
  band list in its order.
\<close>

record IscRule =
  system :: IscSystem
  adValRate :: "rat option"
  specificAmount :: "rat option"
  unit :: "string option"
  params :: "IscBand list option"

datatype RemedyType = AD | CVD

datatype RemedyMode = ad_valorem | specific

record TradeRemedy =
  tr_type :: RemedyType
  tr_mode :: RemedyMode
  rateOrAmount :: rat
  tr_unit :: "string option"

record Permit =
  authority :: string
  permit_note :: "string option"

record AdminFees =
  uit :: rat
  sdaRate :: rat
  thresholdUIT :: rat

text \<open>
  The fields \<^verbatim>\<open>tariffId\<close>, \<^verbatim>\<open>hs10\<close> and \<^verbatim>\<open>description\<close> of the profile are never read by
  the engine and are left out.
\<close>

record RuleProfile =
  mfnRate :: rat
  ftaRate :: "rat option"
  iscRule :: "IscRule option"
  vatExempt :: bool
  tradeRemedies :: "TradeRemedy list"
  permits :: "Permit list"
  adminFees :: AdminFees

datatype Source = db | override

record RemedyItem =
  item_type :: RemedyType
  item_mode :: RemedyMode
  item_amount :: rat
  item_source :: Source

text \<open>
  The breakdown object \<^verbatim>\<open>iscDetail\<close>:
  \<^item> \<open>DetailAdValorem rate base amount\<close> is \<^verbatim>\<open>{mode:'ad_valorem', ad_val:{rate, base, amount}}\<close>;
  \<^item> \<open>DetailEspecifico unit qty perUnit amount\<close> is \<^verbatim>\<open>{mode:'especifico', especifico:{...}}\<close>;
  \<^item> \<open>DetailMixed unit qty perUnit espec adRate base adv\<close> is
    \<^verbatim>\<open>{mode:'mixed', specific:{unit, qty, perUnit, amount}, ad_val:{rate, base, amount}}\<close>.
\<close>

datatype IscDetail =
    DetailNone
  | DetailAdValorem rat rat rat
  | DetailEspecifico string rat rat rat
  | DetailMixed string rat rat rat rat rat rat

text \<open>
  The notes are fixed Spanish sentences; each is a constructor:
  \<^item> \<open>NoteOverrideArancel\<close>: "Arancel ad-valorem tomado de overrides."
  \<^item> \<open>NotePreferenciaTLC\<close>: "Se aplico preferencia arancelaria (TLC)."
  \<^item> \<open>NoteExoneradoIGV\<close>: "Subpartida exonerada de IGV/IPM vigente."
  \<^item> \<open>NotePermiso authority note\<close>: "Permiso: authority - note", the note part only for
    a non-empty note (\<^verbatim>\<open>p.note ? ' - ' + p.note : ''\<close>)
  \<^item> \<open>NoteIgvDeshabilitado\<close>: "IGV/IPM deshabilitado por el usuario." (USD engine)
\<close>

datatype Note =
    NoteOverrideArancel
  | NotePreferenciaTLC
  | NoteExoneradoIGV
  | NotePermiso string "string option"
  | NoteIgvDeshabilitado

text \<open>
  The perception rule labels:
  \<^item> \<open>ExcluidoRegimenEspecial\<close>: "Excluido por regimen especial"
  \<^item> \<open>PrimeraImportacionNoHabido\<close>: "Primera importacion/No habido"
  \<^item> \<open>BienUsado\<close>: "Bien usado"
  \<^item> \<open>RegimenGeneral\<close>: "Regimen general"
  \<^item> \<open>PercepcionOverrideCero\<close>: "Percepcion override: 0%"
  \<^item> \<open>PercepcionOverride\<close>: "Percepcion override"
  \<^item> \<open>DeshabilitadoPorUsuario\<close>: "Deshabilitado por el usuario" (USD engine)
  \<^item> \<open>OverrideDePercepcion\<close>: "Override de percepcion" (USD engine)
\<close>

datatype PerceptionRule =
    ExcluidoRegimenEspecial
  | PrimeraImportacionNoHabido
  | BienUsado
  | RegimenGeneral
  | PercepcionOverrideCero
  | PercepcionOverride
  | DeshabilitadoPorUsuario
  | OverrideDePercepcion

text \<open>
  \<^verbatim>\<open>SimulationResult\<close>, its nested objects flattened: \<^verbatim>\<open>arancel.amount\<close> is
  \<open>arancel_amount\<close>, \<^verbatim>\<open>trade_remedies.total\<close> is \<open>trade_remedies_total\<close>, and so on.
\<close>

record SimulationResult =
  cif_pen :: rat
  arancel_rate :: rat
  arancel_base :: rat
  arancel_amount :: rat
  isc_mode :: string
  isc_details :: IscDetail
  isc_total :: rat
  trade_remedies_applied :: bool
  trade_remedies_items :: "RemedyItem list"
  trade_remedies_total :: rat
  igv_base :: rat
  igv_igv16 :: rat
  igv_ipm2 :: rat
  igv_total :: rat
  igv_rate :: rat
  igv_amount :: rat
  igv_exempt :: bool
  percepcion_rate :: rat
  percepcion_base :: rat
  percepcion_amount :: rat
  percepcion_rule :: PerceptionRule
  sda_applies :: bool
  sda_amount :: rat
  deuda_aduanera :: rat
  pago_en_frontera :: rat
  result_notes :: "Note list"

text \<open>
  \<^verbatim>\<open>pickIscSpecificFromBands(params, alcoholDegree)\<close>: the strength defaults to 0, the
  first band with a numeric \<^verbatim>\<open>max_abv\<close> not below it is taken, and its
  \<^verbatim>\<open>specific_per_l_pen\<close> is returned when it is a number.
\<close>

definition bandMatches :: "rat \<Rightarrow> IscBand \<Rightarrow> bool" where
  "bandMatches deg b = (case max_abv b of None \<Rightarrow> False | Some m \<Rightarrow> deg \<le> m)"

definition pickIscSpecificFromBands :: "IscBand list option \<Rightarrow> rat option \<Rightarrow> rat option" where
  "pickIscSpecificFromBands ps alcohol =
     (case ps of
        None \<Rightarrow> None
      | Some bands \<Rightarrow>
          (let deg = nullish0 alcohol in
           case find (bandMatches deg) bands of
             None \<Rightarrow> None
           | Some band \<Rightarrow> specific_per_l_pen band))"

definition defaultPerception :: "ImporterProfile option \<Rightarrow> bool option \<Rightarrow> rat \<times> PerceptionRule" where
  "defaultPerception profile used =
     (if profile = Some public \<or> profile = Some amazon then (0, ExcluidoRegimenEspecial)
      else if profile = Some first_import \<or> profile = Some no_habido
        then (10 / 100, PrimeraImportacionNoHabido)
      else if truthy used then (5 / 100, BienUsado)
      else (35 / 1000, RegimenGeneral))"

text \<open>The customs value in USD: \<^verbatim>\<open>input.cif ?? ((input.fob ?? 0) + (input.freight ?? 0) + (input.insurance ?? 0))\<close>.\<close>

definition cifUSD :: "SimulationInput \<Rightarrow> rat" where
  "cifUSD input =
     (case cif input of
        Some c \<Rightarrow> c
      | None \<Rightarrow> nullish0 (fob input) + nullish0 (freight input) + nullish0 (insurance input))"

text \<open>The excise block of \<^verbatim>\<open>simulate\<close> (\<^verbatim>\<open>if (prof.iscRule) { ... }\<close>): total and breakdown.\<close>

definition iscStage :: "SimulationInput \<Rightarrow> RuleProfile \<Rightarrow> rat \<Rightarrow> rat \<Rightarrow> rat \<times> IscDetail" where
  "iscStage input prof cifPEN dArancel =
     (case iscRule prof of
        None \<Rightarrow> (0, DetailNone)
      | Some rule \<Rightarrow>
          (let baseISC = cifPEN + dArancel in
           if system rule = sys_ad_valorem then
             (let rate = nullish0 (adValRate rule);
                  amount = round2 (baseISC * rate)
              in (amount, DetailAdValorem rate (round2 baseISC) amount))
           else if system rule = sys_especifico then
             (let qty = nullish0 (quantity input);
                  u = (case unit rule of None \<Rightarrow> ''UN'' | Some v \<Rightarrow> v);
                  perUnit = nullish0 (specificAmount rule);
                  amount = round2 (qty * perUnit)
              in (amount, DetailEspecifico u qty perUnit amount))
           else if system rule = sys_mixed then
             (let qty = nullish0 (quantity input);
                  u = (case unit rule of None \<Rightarrow> ''UN'' | Some v \<Rightarrow> v);
                  bandPerUnit = pickIscSpecificFromBands (params rule) (alcoholDegree input);
                  perUnit = (case bandPerUnit of Some v \<Rightarrow> v | None \<Rightarrow> nullish0 (specificAmount rule));
                  espec = round2 (qty * perUnit);
                  adRate = nullish0 (adValRate rule);
                  adv = round2 ((cifPEN + dArancel) * adRate)
              in (espec + adv, DetailMixed u qty perUnit espec adRate (round2 (cifPEN + dArancel)) adv))
           else (0, DetailNone)))"

definition iscModeOf :: "IscDetail \<Rightarrow> string" where
  "iscModeOf d =
     (case d of
        DetailNone \<Rightarrow> ''none''
      | DetailAdValorem _ _ _ \<Rightarrow> ''ad_valorem''
      | DetailEspecifico _ _ _ _ \<Rightarrow> ''especifico''
      | DetailMixed _ _ _ _ _ _ _ \<Rightarrow> ''mixed'')"

text \<open>
  The loop \<^verbatim>\<open>for (const r of prof.tradeRemedies)\<close>, threading \<^verbatim>\<open>adcvdTotal\<close> and
  \<^verbatim>\<open>adcvdItems\<close>.
\<close>

fun remediesLoop ::
  "rat \<Rightarrow> rat option \<Rightarrow> TradeRemedy list \<Rightarrow> rat \<times> RemedyItem list \<Rightarrow> rat \<times> RemedyItem list" where
  "remediesLoop cifPEN q [] acc = acc"
| "remediesLoop cifPEN q (r # rs) (adcvdTotal, adcvdItems) =
     (let amt = (if tr_mode r = ad_valorem then round2 (cifPEN * rateOrAmount r)
                 else round2 (nullish0 q * rateOrAmount r))
      in remediesLoop cifPEN q rs
           (adcvdTotal + amt,
            adcvdItems @ [\<lparr>item_type = tr_type r, item_mode = tr_mode r,
                           item_amount = amt, item_source = db\<rparr>]))"

text \<open>
  \<^verbatim>\<open>if (overrides?.antidumpingUsd && overrides.antidumpingUsd > 0) { ... }\<close> and its
  countervailing twin: a specific amount in USD, converted with the exchange rate.
\<close>

definition remedyOverride ::
  "RemedyType \<Rightarrow> rat option \<Rightarrow> rat \<Rightarrow> rat \<times> RemedyItem list \<Rightarrow> rat \<times> RemedyItem list" where
  "remedyOverride t usd fx acc =
     (case usd of
        None \<Rightarrow> acc
      | Some v \<Rightarrow>
          if v \<noteq> 0 \<and> v > 0 then
            (let amt = round2 (v * fx)
             in (fst acc + amt,
                 snd acc @ [\<lparr>item_type = t, item_mode = specific,
                              item_amount = amt, item_source = override\<rparr>]))
          else acc)"

text \<open>\<^verbatim>\<open>overrides?.field\<close>.\<close>

definition ov :: "SimulationOverrides option \<Rightarrow> (SimulationOverrides \<Rightarrow> rat option) \<Rightarrow> rat option" where
  "ov overrides field = (case overrides of None \<Rightarrow> None | Some v \<Rightarrow> field v)"

text \<open>
  \<^verbatim>\<open>simulate\<close> after its guard: everything from \<^verbatim>\<open>const cifPEN = ...\<close> to the returned
  object, with \<open>fx\<close> the exchange rate that passed the guard.
\<close>

definition simulateBody ::
  "SimulationInput \<Rightarrow> RuleProfile \<Rightarrow> SimulationOverrides option \<Rightarrow> rat \<Rightarrow> SimulationResult" where
  "simulateBody input prof overrides fx =
     (let cifPEN = round2 (cifUSD input * fx);
          advalRate =
            (case ov overrides adValoremRate of
               Some a \<Rightarrow> a
             | None \<Rightarrow>
                 (case ftaRate prof of
                    Some f \<Rightarrow> if truthy (useFTA input) then min (mfnRate prof) f else mfnRate prof
                  | None \<Rightarrow> mfnRate prof));
          notes1 =
            (case ov overrides adValoremRate of
               Some a \<Rightarrow> [NoteOverrideArancel]
             | None \<Rightarrow>
                 (case ftaRate prof of
                    Some f \<Rightarrow>
                      if truthy (useFTA input) \<and> f < mfnRate prof then [NotePreferenciaTLC] else []
                  | None \<Rightarrow> []));
          dArancel = round2 (cifPEN * advalRate);
          isc = iscStage input prof cifPEN dArancel;
          iscTotal = fst isc;
          adcvd =
            remedyOverride CVD (ov overrides countervailingUsd) fx
              (remedyOverride AD (ov overrides antidumpingUsd) fx
                 (remediesLoop cifPEN (quantity input) (tradeRemedies prof) (0, [])));
          adcvdTotal = fst adcvd;
          igvBase = round2 (cifPEN + dArancel + iscTotal);
          igv16 = (if vatExempt prof then 0 else round2 (igvBase * (16 / 100)));
          ipm2 = (if vatExempt prof then 0 else round2 (igvBase * (2 / 100)));
          igvTot = round2 (igv16 + ipm2);
          notes2 = (if vatExempt prof then [NoteExoneradoIGV] else []);
          percDefault = defaultPerception (importerProfile input) (isUsed input);
          percRate =
            (case ov overrides perceptionRate of Some p \<Rightarrow> p | None \<Rightarrow> fst percDefault);
          percRule =
            (case ov overrides perceptionRate of
               Some p \<Rightarrow> if percRate = 0 then PercepcionOverrideCero else PercepcionOverride
             | None \<Rightarrow> snd percDefault);
          percepBase = round2 (igvBase + igv16 + ipm2 + adcvdTotal);
          percepAmt = round2 (percepBase * percRate);
          sdaApplies =
            (case ov overrides sdaUsd of
               Some s \<Rightarrow> s > 0
             | None \<Rightarrow> cifPEN > uit (adminFees prof) * thresholdUIT (adminFees prof));
          sdaAmt =
            (case ov overrides sdaUsd of
               Some s \<Rightarrow> round2 (s * fx)
             | None \<Rightarrow>
                 if sdaApplies then round2 (uit (adminFees prof) * sdaRate (adminFees prof))
                 else 0);
          deuda = round2 (dArancel + iscTotal + igvTot + adcvdTotal + sdaAmt);
          pagoFrontera = round2 (deuda + percepAmt);
          notes3 =
            map (\<lambda>p. NotePermiso (authority p)
                        (case permit_note p of
                           None \<Rightarrow> None
                         | Some n \<Rightarrow> if n = [] then None else Some n))
                (permits prof)
      in \<lparr>cif_pen = cifPEN,
              arancel_rate = advalRate, arancel_base = cifPEN, arancel_amount = dArancel,
              isc_mode = iscModeOf (snd isc), isc_details = snd isc, isc_total = iscTotal,
              trade_remedies_applied = (length (snd adcvd) > 0),
              trade_remedies_items = snd adcvd, trade_remedies_total = adcvdTotal,
              igv_base = igvBase, igv_igv16 = igv16, igv_ipm2 = ipm2, igv_total = igvTot,
              igv_rate = 18 / 100, igv_amount = igvTot, igv_exempt = vatExempt prof,
              percepcion_rate = percRate, percepcion_base = percepBase,
              percepcion_amount = percepAmt, percepcion_rule = percRule,
              sda_applies = sdaApplies, sda_amount = sdaAmt,
              deuda_aduanera = deuda, pago_en_frontera = pagoFrontera,
              result_notes = notes1 @ notes2 @ notes3\<rparr>)"

text \<open>
  \<^verbatim>\<open>if (!cifUSD || !input.fxRate) throw new Error(...)\<close>: a number is falsy when it is 0,
  an absent one always.
\<close>

definition simulate ::
  "SimulationInput \<Rightarrow> RuleProfile \<Rightarrow> SimulationOverrides option \<Rightarrow> error + SimulationResult" where
  "simulate input prof overrides =
     (case fxRate input of
        None \<Rightarrow> Inl InvalidInput
      | Some fx \<Rightarrow>
          if cifUSD input = 0 \<or> fx = 0 then Inl InvalidInput
          else Inr (simulateBody input prof overrides fx))"

section \<open>USD-only engine (the second \<^verbatim>\<open>simulate\<close>, beside services/exportacion.service.ts)\<close>

text \<open>
  The second engine declares its own \<^verbatim>\<open>SimulationOverrides\<close>, \<^verbatim>\<open>SimulationInput\<close>,
  \<^verbatim>\<open>RuleProfile\<close>, \<^verbatim>\<open>SimulationResult\<close> and \<^verbatim>\<open>simulate\<close>; here they carry the prefix
  \<open>usd_\<close>, and the parameter \<^verbatim>\<open>o\<close> of the engine is \<open>opts\<close>. Its rounding helper
  \<^verbatim>\<open>r2\<close> has the body of \<^verbatim>\<open>round2\<close>. On a number, \<^verbatim>\<open>prof.adValoremRate || 0\<close> is the
  number itself, and \<^verbatim>\<open>typeof x === 'number' ? x : 0\<close> on an optional number is \<open>nullish0\<close>.
\<close>

abbreviation (input) r2 :: "rat \<Rightarrow> rat" where
  "r2 \<equiv> round2"

record usd_SimulationOverrides =
  usd_igvEnabled :: bool
  usd_iscEnabled :: bool
  usd_perceptionEnabled :: bool
  usd_iscRate :: "rat option"
  usd_antidumpingUsd :: "rat option"
  usd_countervailingUsd :: "rat option"
  usd_perceptionRate :: "rat option"
  usd_sdaUsd :: "rat option"

record usd_SimulationInput =
  usd_hs10 :: string
  usd_fxRate :: "rat option"
  usd_cif :: "rat option"
  usd_fob :: "rat option"
  usd_freight :: "rat option"
  usd_insurance :: "rat option"
  usd_importerProfile :: "ImporterProfile option"
  usd_isUsed :: "bool option"

text \<open>The profile's \<^verbatim>\<open>hs10\<close> and \<^verbatim>\<open>description\<close> are never read by the engine.\<close>

record usd_RuleProfile =
  usd_adValoremRate :: rat
  usd_igvRate :: rat
  usd_ipmRate :: rat

record usd_RemedyItem =
  usd_item_type :: RemedyType
  usd_item_amount :: rat

text \<open>
  \<^verbatim>\<open>isc.details\<close> is one of two strings: "ISC % sobre (CIF + A/V), tasa=rate"
  (\<open>IscTasa rate\<close>) or "Deshabilitado por el usuario" (\<open>IscDeshabilitado\<close>).
\<close>

datatype usd_IscDetails = IscTasa rat | IscDeshabilitado

record usd_SimulationResult =
  usd_cif_pen :: rat
  usd_arancel_rate :: rat
  usd_arancel_base :: rat
  usd_arancel_amount :: rat
  usd_isc_applied :: bool
  usd_isc_total :: rat
  usd_isc_details :: usd_IscDetails
  usd_trade_remedies_applied :: bool
  usd_trade_remedies_items :: "usd_RemedyItem list"
  usd_trade_remedies_total :: rat
  usd_igv_applied :: bool
  usd_igv_exempt :: bool
  usd_igv_base :: rat
  usd_igv_igv16 :: rat
  usd_igv_ipm2 :: rat
  usd_igv_total :: rat
  usd_igv_details :: string
  usd_percepcion_applied :: bool
  usd_percepcion_rate :: rat
  usd_percepcion_base :: rat
  usd_percepcion_amount :: rat
  usd_percepcion_rule :: PerceptionRule
  usd_sda_applied :: bool
  usd_sda_amount :: rat
  usd_deuda_aduanera :: rat
  usd_pago_en_frontera :: rat
  usd_notes :: "Note list"

definition usd_cifUsd :: "usd_SimulationInput \<Rightarrow> rat" where
  "usd_cifUsd input =
     (case usd_cif input of
        Some c \<Rightarrow> c
      | None \<Rightarrow> nullish0 (usd_fob input) + nullish0 (usd_freight input) + nullish0 (usd_insurance input))"

text \<open>\<^verbatim>\<open>if (o.antidumpingUsd) { const a = r2(o.antidumpingUsd); remediesTotal += a; items.push(...) }\<close>\<close>

definition usd_remedy ::
  "RemedyType \<Rightarrow> rat option \<Rightarrow> rat \<times> usd_RemedyItem list \<Rightarrow> rat \<times> usd_RemedyItem list" where
  "usd_remedy t usd acc =
     (case usd of
        None \<Rightarrow> acc
      | Some v \<Rightarrow>
          if v \<noteq> 0 then
            (let a = r2 v
             in (fst acc + a, snd acc @ [\<lparr>usd_item_type = t, usd_item_amount = a\<rparr>]))
          else acc)"

text \<open>The inline \<^verbatim>\<open>defPerc\<close> of the USD engine.\<close>

definition usd_defPerc :: "usd_SimulationInput \<Rightarrow> rat \<times> PerceptionRule" where
  "usd_defPerc input =
     (if usd_importerProfile input = Some public \<or> usd_importerProfile input = Some amazon
        then (0, ExcluidoRegimenEspecial)
      else if usd_importerProfile input = Some first_import \<or> usd_importerProfile input = Some no_habido
        then (10 / 100, PrimeraImportacionNoHabido)
      else if truthy (usd_isUsed input) then (5 / 100, BienUsado)
      else (35 / 1000, RegimenGeneral))"

text \<open>The USD \<^verbatim>\<open>simulate\<close> after its guard.\<close>

definition usd_simulateBody ::
  "usd_SimulationInput \<Rightarrow> usd_RuleProfile \<Rightarrow> usd_SimulationOverrides \<Rightarrow> usd_SimulationResult" where
  "usd_simulateBody input prof opts =
     (let cifBase = r2 (usd_cifUsd input);
          avRate = usd_adValoremRate prof;
          avAmt = r2 (cifBase * avRate);
          rate = nullish0 (usd_iscRate opts);
          iscTotal = (if usd_iscEnabled opts then r2 (r2 (cifBase + avAmt) * rate) else 0);
          iscApplied = (usd_iscEnabled opts \<and> rate > 0);
          iscDetails = (if usd_iscEnabled opts then IscTasa rate else IscDeshabilitado);
          igvApplies = usd_igvEnabled opts;
          igvBase = r2 (cifBase + avAmt + iscTotal);
          igv16 = (if igvApplies then r2 (igvBase * usd_igvRate prof) else 0);
          ipm2 = (if igvApplies then r2 (igvBase * usd_ipmRate prof) else 0);
          igvTot = r2 (igv16 + ipm2);
          igvDetails = (if igvApplies then ''Habilitado'' else ''Deshabilitado por el usuario'');
          notes1 = (if igvApplies then [] else [NoteIgvDeshabilitado]);
          remedies =
            usd_remedy CVD (usd_countervailingUsd opts)
              (usd_remedy AD (usd_antidumpingUsd opts) (0, []));
          remediesTotal = fst remedies;
          defPerc = usd_defPerc input;
          percEnabled = usd_perceptionEnabled opts;
          percRate =
            (if percEnabled
             then (case usd_perceptionRate opts of Some p \<Rightarrow> p | None \<Rightarrow> fst defPerc)
             else 0);
          percRule =
            (if percEnabled
             then (case usd_perceptionRate opts of Some p \<Rightarrow> OverrideDePercepcion | None \<Rightarrow> snd defPerc)
             else DeshabilitadoPorUsuario);
          percBase = (if percEnabled then r2 (igvBase + igv16 + ipm2 + remediesTotal) else 0);
          percAmt = (if percEnabled then r2 (percBase * percRate) else 0);
          percApplied = (percEnabled \<and> percRate > 0);
          sdaApplied = (case usd_sdaUsd opts of Some s \<Rightarrow> s > 0 | None \<Rightarrow> False);
          sdaAmt = (if sdaApplied then r2 (nullish0 (usd_sdaUsd opts)) else 0);
          deuda = r2 (avAmt + iscTotal + igvTot + remediesTotal + sdaAmt);
          pagoFrontera = r2 (deuda + percAmt)
      in \<lparr>usd_cif_pen = cifBase,
              usd_arancel_rate = avRate, usd_arancel_base = cifBase, usd_arancel_amount = avAmt,
              usd_isc_applied = iscApplied, usd_isc_total = iscTotal, usd_isc_details = iscDetails,
              usd_trade_remedies_applied = (length (snd remedies) > 0),
              usd_trade_remedies_items = snd remedies, usd_trade_remedies_total = remediesTotal,
              usd_igv_applied = igvApplies, usd_igv_exempt = False, usd_igv_base = igvBase,
              usd_igv_igv16 = igv16, usd_igv_ipm2 = ipm2, usd_igv_total = igvTot,
              usd_igv_details = igvDetails,
              usd_percepcion_applied = percApplied, usd_percepcion_rate = percRate,
              usd_percepcion_base = percBase, usd_percepcion_amount = percAmt,
              usd_percepcion_rule = percRule,
              usd_sda_applied = sdaApplied, usd_sda_amount = sdaAmt,
              usd_deuda_aduanera = deuda, usd_pago_en_frontera = pagoFrontera,
              usd_notes = notes1\<rparr>)"

text \<open>\<^verbatim>\<open>if (!cifUsd) throw new Error('Debes enviar CIF o (FOB+Flete+Seguro).')\<close>\<close>

definition usd_simulate ::
  "usd_SimulationInput \<Rightarrow> usd_RuleProfile \<Rightarrow> usd_SimulationOverrides \<Rightarrow> error + usd_SimulationResult" where
  "usd_simulate input prof opts =
     (if usd_cifUsd input = 0 then Inl InvalidInput
      else Inr (usd_simulateBody input prof opts))"

section \<open>Profitability aggregator (\<^verbatim>\<open>AnalisisService\<close>)\<close>

text \<open>
  Only the fields the three calculations read. \<^verbatim>\<open>parseFloat(x.toString()) || 0\<close> is the
  identity on a number. \<^verbatim>\<open>parseFloat(x.toFixed(2))\<close> rounds the magnitude to two decimals,
  a tie going away from zero.
\<close>

definition toFixed2 :: "rat \<Rightarrow> rat" where
  "toFixed2 x =
     (if x < 0 then - (of_int \<lfloor>(- x) * 100 + 1 / 2\<rfloor> / 100)
      else of_int \<lfloor>x * 100 + 1 / 2\<rfloor> / 100)"

record ExportacionDetalle =
  valor_venta :: rat
  moneda :: string

record ImportacionDetalle =
  valor_cif :: rat
  dta_total :: rat

record GastoDetalle =
  monto :: rat
  gasto_moneda :: string

record GastosPorClasificacion =
  operativos :: "GastoDetalle list"
  administrativos :: "GastoDetalle list"
  ventas :: "GastoDetalle list"
  financieros :: "GastoDetalle list"

record UtilidadBruta =
  ventas_totales :: rat
  costo_adquisicion :: rat
  utilidad_bruta :: rat
  margen_bruto_porcentaje :: rat

record UtilidadOperativa =
  uo_utilidad_bruta :: rat
  gastos_operativos :: rat
  utilidad_operativa :: rat
  margen_operativo_porcentaje :: rat

record UtilidadNeta =
  un_utilidad_operativa :: rat
  gastos_administrativos :: rat
  gastos_ventas :: rat
  gastos_financieros :: rat
  total_otros_gastos :: rat
  utilidad_neta :: rat
  margen_neto_porcentaje :: rat

definition calcularUtilidadBruta :: "ExportacionDetalle list \<Rightarrow> ImportacionDetalle list \<Rightarrow> UtilidadBruta" where
  "calcularUtilidadBruta exportaciones importaciones =
     (let ventasTotales =
            foldl (\<lambda>total exp.
                     total + (if moneda exp = ''USD'' then valor_venta exp else valor_venta exp / (375 / 100)))
                  0 exportaciones;
          costoAdquisicion =
            foldl (\<lambda>total imp. total + valor_cif imp + dta_total imp) 0 importaciones;
          utilidadBruta = ventasTotales - costoAdquisicion;
          margenBrutoPorcentaje =
            (if ventasTotales > 0 then (utilidadBruta / ventasTotales) * 100 else 0)
      in \<lparr>ventas_totales = toFixed2 ventasTotales,
          costo_adquisicion = toFixed2 costoAdquisicion,
          utilidad_bruta = toFixed2 utilidadBruta,
          margen_bruto_porcentaje = toFixed2 margenBrutoPorcentaje\<rparr>)"

definition calcularUtilidadOperativa :: "UtilidadBruta \<Rightarrow> GastoDetalle list \<Rightarrow> UtilidadOperativa" where
  "calcularUtilidadOperativa utilidadBruta gastosOperativos =
     (let gastosOperativosTotal =
            foldl (\<lambda>total gasto.
                     total + (if gasto_moneda gasto = ''USD'' then monto gasto else monto gasto / (375 / 100)))
                  0 gastosOperativos;
          utilidadOperativa = utilidad_bruta utilidadBruta - gastosOperativosTotal;
          margenOperativoPorcentaje =
            (if ventas_totales utilidadBruta > 0
             then (utilidadOperativa / ventas_totales utilidadBruta) * 100 else 0)
      in \<lparr>uo_utilidad_bruta = utilidad_bruta utilidadBruta,
          gastos_operativos = toFixed2 gastosOperativosTotal,
          utilidad_operativa = toFixed2 utilidadOperativa,
          margen_operativo_porcentaje = toFixed2 margenOperativoPorcentaje\<rparr>)"

definition sumarGastos :: "GastoDetalle list \<Rightarrow> rat" where
  "sumarGastos gastos =
     foldl (\<lambda>total gasto.
              total + (if gasto_moneda gasto = ''USD'' then monto gasto else monto gasto / (375 / 100)))
           0 gastos"

definition calcularUtilidadNeta :: "UtilidadOperativa \<Rightarrow> GastosPorClasificacion \<Rightarrow> UtilidadNeta" where
  "calcularUtilidadNeta utilidadOperativa gastos =
     (let gastosAdministrativos = sumarGastos (administrativos gastos);
          gastosVentas = sumarGastos (ventas gastos);
          gastosFinancieros = sumarGastos (financieros gastos);
          totalOtrosGastos = gastosAdministrativos + gastosVentas + gastosFinancieros;
          utilidadNeta = utilidad_operativa utilidadOperativa - totalOtrosGastos;
          ventasTotales = uo_utilidad_bruta utilidadOperativa + gastos_operativos utilidadOperativa;
          margenNetoPorcentaje =
            (if ventasTotales > 0 then (utilidadNeta / ventasTotales) * 100 else 0)
      in \<lparr>un_utilidad_operativa = utilidad_operativa utilidadOperativa,
          gastos_administrativos = toFixed2 gastosAdministrativos,
          gastos_ventas = toFixed2 gastosVentas,
          gastos_financieros = toFixed2 gastosFinancieros,
          total_otros_gastos = toFixed2 totalOtrosGastos,
          utilidad_neta = toFixed2 utilidadNeta,
          margen_neto_porcentaje = toFixed2 margenNetoPorcentaje\<rparr>)"

text \<open>
  The three calls of \<^verbatim>\<open>obtenerAnalisisRentabilidad\<close>, on rows already fetched:
  the net figure is computed from the operating figure, and that from the gross one.
\<close>

definition utilidadNetaDelCaso ::
  "ExportacionDetalle list \<Rightarrow> ImportacionDetalle list \<Rightarrow> GastosPorClasificacion \<Rightarrow> UtilidadNeta" where
  "utilidadNetaDelCaso exportaciones importaciones gastos =
     (let utilidadBruta = calcularUtilidadBruta exportaciones importaciones;
          utilidadOperativa = calcularUtilidadOperativa utilidadBruta (operativos gastos)
      in calcularUtilidadNeta utilidadOperativa gastos)"

section \<open>Auxiliary predicates and scenarios\<close>

text \<open>An amount with at most two decimals: an integer number of hundredths.\<close>

definition cents :: "rat \<Rightarrow> bool" where
  "cents x = (\<exists>k::int. x = of_int k / 100)"

text \<open>
  A wine import under a trade agreement: FOB 1000, freight 150, insurance 50 (USD) at 3.75,
  100 litres at 12 degrees; mixed excise with two bands, one ad-valorem antidumping entry,
  one permit.
\<close>

definition w_input :: SimulationInput where
  "w_input = \<lparr>hs10 = ''2204210000'', originCountry = ''CL'', useFTA = Some True,
     currency = Some ''USD'', fxRate = Some (375 / 100), cif = None, fob = Some 1000,
     freight = Some 150, insurance = Some 50, quantity = Some 100, quantityUnit = Some ''L'',
     isUsed = None, importerProfile = None, alcoholDegree = Some 12\<rparr>"

definition w_prof :: RuleProfile where
  "w_prof = \<lparr>mfnRate = 6 / 100, ftaRate = Some 0,
     iscRule = Some \<lparr>system = sys_mixed, adValRate = Some (20 / 100), specificAmount = Some 1,
                      unit = Some ''L'',
                      params = Some [\<lparr>max_abv = Some 6, specific_per_l_pen = Some (5 / 4)\<rparr>,
                                     \<lparr>max_abv = Some 20, specific_per_l_pen = Some (5 / 2)\<rparr>]\<rparr>,
     vatExempt = False,
     tradeRemedies = [\<lparr>tr_type = AD, tr_mode = ad_valorem, rateOrAmount = 5 / 100, tr_unit = None\<rparr>],
     permits = [\<lparr>authority = ''SENASA'', permit_note = None\<rparr>],
     adminFees = \<lparr>uit = 5350, sdaRate = 235 / 10000, thresholdUIT = 3\<rparr>\<rparr>"

definition w_result :: SimulationResult where
  "w_result = \<lparr>cif_pen = 4500, arancel_rate = 0, arancel_base = 4500,
        arancel_amount = 0, isc_mode = ''mixed'',
        isc_details = DetailMixed ''L'' 100 (5 / 2) 250 (1 / 5) 4500 900,
        isc_total = 1150, trade_remedies_applied = True,
        trade_remedies_items =
          [\<lparr>item_type = AD, item_mode = ad_valorem, item_amount = 225,
              item_source = db\<rparr>],
        trade_remedies_total = 225, igv_base = 5650, igv_igv16 = 904,
        igv_ipm2 = 113, igv_total = 1017, igv_rate = 18 / 100,
        igv_amount = 1017, igv_exempt = False, percepcion_rate = 35 / 1000,
        percepcion_base = 6892, percepcion_amount = 24122 / 100,
        percepcion_rule = RegimenGeneral, sda_applies = False,
        sda_amount = 0, deuda_aduanera = 2392,
        pago_en_frontera = 263322 / 100,
        result_notes = [NotePreferenciaTLC, NotePermiso ''SENASA'' None]\<rparr>"

text \<open>
  The USD scenario: FOB 1000, freight 150, insurance 50, duty 6%, excise off, VAT 16% and 2%,
  perception off.
\<close>

definition c8_input :: usd_SimulationInput where
  "c8_input = \<lparr>usd_hs10 = ''4819100000'', usd_fxRate = None, usd_cif = None,
     usd_fob = Some 1000, usd_freight = Some 150, usd_insurance = Some 50,
     usd_importerProfile = None, usd_isUsed = None\<rparr>"

definition c8_prof :: usd_RuleProfile where
  "c8_prof = \<lparr>usd_adValoremRate = 6 / 100, usd_igvRate = 16 / 100, usd_ipmRate = 2 / 100\<rparr>"

definition c8_opts :: usd_SimulationOverrides where
  "c8_opts = \<lparr>usd_igvEnabled = True, usd_iscEnabled = False, usd_perceptionEnabled = False,
     usd_iscRate = None, usd_antidumpingUsd = None, usd_countervailingUsd = None,
     usd_perceptionRate = None, usd_sdaUsd = None\<rparr>"

definition c8_result :: usd_SimulationResult where
  "c8_result =
     \<lparr>usd_cif_pen = 1200,
      usd_arancel_rate = 6 / 100, usd_arancel_base = 1200, usd_arancel_amount = 72,
      usd_isc_applied = False, usd_isc_total = 0, usd_isc_details = IscDeshabilitado,
      usd_trade_remedies_applied = False, usd_trade_remedies_items = [],
      usd_trade_remedies_total = 0,
      usd_igv_applied = True, usd_igv_exempt = False, usd_igv_base = 1272,
      usd_igv_igv16 = 20352 / 100, usd_igv_ipm2 = 2544 / 100, usd_igv_total = 22896 / 100,
      usd_igv_details = ''Habilitado'',
      usd_percepcion_applied = False, usd_percepcion_rate = 0, usd_percepcion_base = 0,
      usd_percepcion_amount = 0, usd_percepcion_rule = DeshabilitadoPorUsuario,
      usd_sda_applied = False, usd_sda_amount = 0,
      usd_deuda_aduanera = 30096 / 100, usd_pago_en_frontera = 30096 / 100,
      usd_notes = []\<rparr>"

text \<open>
  The spec's words for a supplied basis: a direct customs value, or all three of FOB,
  freight and insurance.
\<close>

definition spec_suppliesBasis :: "SimulationInput \<Rightarrow> bool" where
  "spec_suppliesBasis input =
     (cif input \<noteq> None \<or> (fob input \<noteq> None \<and> freight input \<noteq> None \<and> insurance input \<noteq> None))"

text \<open>Variants of the wine import: a direct customs value of 0; FOB alone; no alcohol strength.\<close>

definition c2_zero_cif :: SimulationInput where
  "c2_zero_cif = w_input\<lparr>cif := Some 0\<rparr>"

definition c2_fob_only :: SimulationInput where
  "c2_fob_only = w_input\<lparr>freight := None, insurance := None\<rparr>"

definition c3_input :: SimulationInput where
  "c3_input = w_input\<lparr>alcoholDegree := None\<rparr>"

text \<open>The excise rule of the wine import.\<close>

definition w_rule :: IscRule where
  "w_rule = \<lparr>system = sys_mixed, adValRate = Some (20 / 100), specificAmount = Some 1,
              unit = Some ''L'',
              params = Some [\<lparr>max_abv = Some 6, specific_per_l_pen = Some (5 / 4)\<rparr>,
                             \<lparr>max_abv = Some 20, specific_per_l_pen = Some (5 / 2)\<rparr>]\<rparr>"

text \<open>The USD scenario with FOB 20000.\<close>

definition c7_input :: usd_SimulationInput where
  "c7_input = c8_input\<lparr>usd_fob := Some 20000\<rparr>"









text \<open>
  Two study cases. The first has no sale, one import costing 100 and one operating expense
  of 300 USD. The second has one sale of 1000 USD, one import costing 600 and one operating
  expense of 100 USD.
\<close>

definition c4_importaciones :: "ImportacionDetalle list" where
  "c4_importaciones = [\<lparr>valor_cif = 100, dta_total = 0\<rparr>]"

definition c4_gastos :: GastosPorClasificacion where
  "c4_gastos = \<lparr>operativos = [\<lparr>monto = 300, gasto_moneda = ''USD''\<rparr>],
                 administrativos = [], ventas = [], financieros = []\<rparr>"

definition c4_exportaciones :: "ExportacionDetalle list" where
  "c4_exportaciones = [\<lparr>valor_venta = 1000, moneda = ''USD''\<rparr>]"

definition c4_compras :: "ImportacionDetalle list" where
  "c4_compras = [\<lparr>valor_cif = 500, dta_total = 100\<rparr>]"

definition c4_gastos_100 :: GastosPorClasificacion where
  "c4_gastos_100 = \<lparr>operativos = [\<lparr>monto = 100, gasto_moneda = ''USD''\<rparr>],
                     administrativos = [], ventas = [], financieros = []\<rparr>"

text \<open>An antidumping override of -50 USD.\<close>

definition c10_overrides :: SimulationOverrides where
  "c10_overrides = \<lparr>adValoremRate = None, antidumpingUsd = Some (- 50),
                     countervailingUsd = None, perceptionRate = None, sdaUsd = None\<rparr>"

section \<open>The engines under a rounding arithmetic\<close>

text \<open>
  JavaScript computes on IEEE 754 doubles: every sum, product and quotient is rounded to the
  nearest double, and a decimal literal is the nearest double too. The definitions of this
  section are the two engines once more, line by line, with that rounding made explicit as
  a parameter \<open>fl\<close>: \<open>plus_fp fl a b\<close> is \<^verbatim>\<open>a + b\<close>, \<open>times_fp fl a b\<close> is \<^verbatim>\<open>a * b\<close>,
  \<open>divide_fp fl a b\<close> is \<^verbatim>\<open>a / b\<close>, and \<open>fl x\<close> is the literal \<open>x\<close>. Sums associate to the left,
  as in the source. With the identity for \<open>fl\<close> they are the exact engines above; with
  \<open>binary64\<close> they compute what the code computes.

  \<open>binary64 x\<close> is the double nearest to \<open>x\<close>: 53 significant bits, a tie going to the even
  significand. The exponent is not bounded, so overflow to infinity and subnormal numbers
  are outside the model. \<^verbatim>\<open>Math.round\<close> is exact on a double.
\<close>

text \<open>For a positive \<open>x\<close>, the \<open>e\<close> with \<open>2\<^sup>e \<le> x < 2\<^sup>e\<^sup>+\<^sup>1\<close>.\<close>

definition exponent :: "rat \<Rightarrow> int" where
  "exponent x =
     (let e = bitlen (fst (quotient_of x)) - bitlen (snd (quotient_of x))
      in if 2 powi e \<le> x then e else e - 1)"

definition roundHalfEven :: "rat \<Rightarrow> int" where
  "roundHalfEven q =
     (let f = \<lfloor>q\<rfloor>; d = q - of_int f
      in if d < 1 / 2 then f else if 1 / 2 < d then f + 1 else if even f then f else f + 1)"

definition binary64 :: "rat \<Rightarrow> rat" where
  "binary64 x =
     (if x = 0 then 0
      else (let e = exponent \<bar>x\<bar>;
                u = 2 powi (e - 52);
                m = roundHalfEven (\<bar>x\<bar> / u)
            in sgn x * of_int m * u))"

definition plus_fp :: "(rat \<Rightarrow> rat) \<Rightarrow> rat \<Rightarrow> rat \<Rightarrow> rat" where
  "plus_fp fl a b = fl (a + b)"

definition times_fp :: "(rat \<Rightarrow> rat) \<Rightarrow> rat \<Rightarrow> rat \<Rightarrow> rat" where
  "times_fp fl a b = fl (a * b)"

definition divide_fp :: "(rat \<Rightarrow> rat) \<Rightarrow> rat \<Rightarrow> rat \<Rightarrow> rat" where
  "divide_fp fl a b = fl (a / b)"

text \<open>\<^verbatim>\<open>Math.round((n + Number.EPSILON) * 100) / 100\<close>\<close>

definition round2_fp :: "(rat \<Rightarrow> rat) \<Rightarrow> rat \<Rightarrow> rat" where
  "round2_fp fl n =
     divide_fp fl (of_int (Math_round (times_fp fl (plus_fp fl n EPSILON) 100))) 100"

definition defaultPerception_fp ::
  "(rat \<Rightarrow> rat) \<Rightarrow> ImporterProfile option \<Rightarrow> bool option \<Rightarrow> rat \<times> PerceptionRule" where
  "defaultPerception_fp fl profile used =
     (if profile = Some public \<or> profile = Some amazon then (0, ExcluidoRegimenEspecial)
      else if profile = Some first_import \<or> profile = Some no_habido
        then (fl (10 / 100), PrimeraImportacionNoHabido)
      else if truthy used then (fl (5 / 100), BienUsado)
      else (fl (35 / 1000), RegimenGeneral))"

definition cifUSD_fp :: "(rat \<Rightarrow> rat) \<Rightarrow> SimulationInput \<Rightarrow> rat" where
  "cifUSD_fp fl input =
     (case cif input of
        Some c \<Rightarrow> c
      | None \<Rightarrow>
          plus_fp fl (plus_fp fl (nullish0 (fob input)) (nullish0 (freight input)))
            (nullish0 (insurance input)))"

definition iscStage_fp ::
  "(rat \<Rightarrow> rat) \<Rightarrow> SimulationInput \<Rightarrow> RuleProfile \<Rightarrow> rat \<Rightarrow> rat \<Rightarrow> rat \<times> IscDetail" where
  "iscStage_fp fl input prof cifPEN dArancel =
     (case iscRule prof of
        None \<Rightarrow> (0, DetailNone)
      | Some rule \<Rightarrow>
          (let baseISC = plus_fp fl cifPEN dArancel in
           if system rule = sys_ad_valorem then
             (let rate = nullish0 (adValRate rule);
                  amount = round2_fp fl (times_fp fl baseISC rate)
              in (amount, DetailAdValorem rate (round2_fp fl baseISC) amount))
           else if system rule = sys_especifico then
             (let qty = nullish0 (quantity input);
                  u = (case unit rule of None \<Rightarrow> ''UN'' | Some v \<Rightarrow> v);
                  perUnit = nullish0 (specificAmount rule);
                  amount = round2_fp fl (times_fp fl qty perUnit)
              in (amount, DetailEspecifico u qty perUnit amount))
           else if system rule = sys_mixed then
             (let qty = nullish0 (quantity input);
                  u = (case unit rule of None \<Rightarrow> ''UN'' | Some v \<Rightarrow> v);
                  bandPerUnit = pickIscSpecificFromBands (params rule) (alcoholDegree input);
                  perUnit = (case bandPerUnit of Some v \<Rightarrow> v | None \<Rightarrow> nullish0 (specificAmount rule));
                  espec = round2_fp fl (times_fp fl qty perUnit);
                  adRate = nullish0 (adValRate rule);
                  adv = round2_fp fl (times_fp fl (plus_fp fl cifPEN dArancel) adRate)
              in (plus_fp fl espec adv,
                  DetailMixed u qty perUnit espec adRate (round2_fp fl (plus_fp fl cifPEN dArancel)) adv))
           else (0, DetailNone)))"

fun remediesLoop_fp ::
  "(rat \<Rightarrow> rat) \<Rightarrow> rat \<Rightarrow> rat option \<Rightarrow> TradeRemedy list \<Rightarrow> rat \<times> RemedyItem list
     \<Rightarrow> rat \<times> RemedyItem list" where
  "remediesLoop_fp fl cifPEN q [] acc = acc"
| "remediesLoop_fp fl cifPEN q (r # rs) (adcvdTotal, adcvdItems) =
     (let amt = (if tr_mode r = ad_valorem then round2_fp fl (times_fp fl cifPEN (rateOrAmount r))
                 else round2_fp fl (times_fp fl (nullish0 q) (rateOrAmount r)))
      in remediesLoop_fp fl cifPEN q rs
           (plus_fp fl adcvdTotal amt,
            adcvdItems @ [\<lparr>item_type = tr_type r, item_mode = tr_mode r,
                           item_amount = amt, item_source = db\<rparr>]))"

definition remedyOverride_fp ::
  "(rat \<Rightarrow> rat) \<Rightarrow> RemedyType \<Rightarrow> rat option \<Rightarrow> rat \<Rightarrow> rat \<times> RemedyItem list
     \<Rightarrow> rat \<times> RemedyItem list" where
  "remedyOverride_fp fl t usd fx acc =
     (case usd of
        None \<Rightarrow> acc
      | Some v \<Rightarrow>
          if v \<noteq> 0 \<and> v > 0 then
            (let amt = round2_fp fl (times_fp fl v fx)
             in (plus_fp fl (fst acc) amt,
                 snd acc @ [\<lparr>item_type = t, item_mode = specific,
                              item_amount = amt, item_source = override\<rparr>]))
          else acc)"

definition simulateBody_fp ::
  "(rat \<Rightarrow> rat) \<Rightarrow> SimulationInput \<Rightarrow> RuleProfile \<Rightarrow> SimulationOverrides option \<Rightarrow> rat
     \<Rightarrow> SimulationResult" where
  "simulateBody_fp fl input prof overrides fx =
     (let cifPEN = round2_fp fl (times_fp fl (cifUSD_fp fl input) fx);
          advalRate =
            (case ov overrides adValoremRate of
               Some a \<Rightarrow> a
             | None \<Rightarrow>
                 (case ftaRate prof of
                    Some f \<Rightarrow> if truthy (useFTA input) then min (mfnRate prof) f else mfnRate prof
                  | None \<Rightarrow> mfnRate prof));
          notes1 =
            (case ov overrides adValoremRate of
               Some a \<Rightarrow> [NoteOverrideArancel]
             | None \<Rightarrow>
                 (case ftaRate prof of
                    Some f \<Rightarrow>
                      if truthy (useFTA input) \<and> f < mfnRate prof then [NotePreferenciaTLC] else []
                  | None \<Rightarrow> []));
          dArancel = round2_fp fl (times_fp fl cifPEN advalRate);
          isc = iscStage_fp fl input prof cifPEN dArancel;
          iscTotal = fst isc;
          adcvd =
            remedyOverride_fp fl CVD (ov overrides countervailingUsd) fx
              (remedyOverride_fp fl AD (ov overrides antidumpingUsd) fx
                 (remediesLoop_fp fl cifPEN (quantity input) (tradeRemedies prof) (0, [])));
          adcvdTotal = fst adcvd;
          igvBase = round2_fp fl (plus_fp fl (plus_fp fl cifPEN dArancel) iscTotal);
          igv16 = (if vatExempt prof then 0 else round2_fp fl (times_fp fl igvBase (fl (16 / 100))));
          ipm2 = (if vatExempt prof then 0 else round2_fp fl (times_fp fl igvBase (fl (2 / 100))));
          igvTot = round2_fp fl (plus_fp fl igv16 ipm2);
          notes2 = (if vatExempt prof then [NoteExoneradoIGV] else []);
          percDefault = defaultPerception_fp fl (importerProfile input) (isUsed input);
          percRate =
            (case ov overrides perceptionRate of Some p \<Rightarrow> p | None \<Rightarrow> fst percDefault);
          percRule =
            (case ov overrides perceptionRate of
               Some p \<Rightarrow> if percRate = 0 then PercepcionOverrideCero else PercepcionOverride
             | None \<Rightarrow> snd percDefault);
          percepBase =
            round2_fp fl (plus_fp fl (plus_fp fl (plus_fp fl igvBase igv16) ipm2) adcvdTotal);
          percepAmt = round2_fp fl (times_fp fl percepBase percRate);
          sdaApplies =
            (case ov overrides sdaUsd of
               Some s \<Rightarrow> s > 0
             | None \<Rightarrow> cifPEN > times_fp fl (uit (adminFees prof)) (thresholdUIT (adminFees prof)));
          sdaAmt =
            (case ov overrides sdaUsd of
               Some s \<Rightarrow> round2_fp fl (times_fp fl s fx)
             | None \<Rightarrow>
                 if sdaApplies
                 then round2_fp fl (times_fp fl (uit (adminFees prof)) (sdaRate (adminFees prof)))
                 else 0);
          deuda =
            round2_fp fl
              (plus_fp fl (plus_fp fl (plus_fp fl (plus_fp fl dArancel iscTotal) igvTot) adcvdTotal)
                 sdaAmt);
          pagoFrontera = round2_fp fl (plus_fp fl deuda percepAmt);
          notes3 =
            map (\<lambda>p. NotePermiso (authority p)
                        (case permit_note p of
                           None \<Rightarrow> None
                         | Some n \<Rightarrow> if n = [] then None else Some n))
                (permits prof)
      in \<lparr>cif_pen = cifPEN,
              arancel_rate = advalRate, arancel_base = cifPEN, arancel_amount = dArancel,
              isc_mode = iscModeOf (snd isc), isc_details = snd isc, isc_total = iscTotal,
              trade_remedies_applied = (length (snd adcvd) > 0),
              trade_remedies_items = snd adcvd, trade_remedies_total = adcvdTotal,
              igv_base = igvBase, igv_igv16 = igv16, igv_ipm2 = ipm2, igv_total = igvTot,
              igv_rate = fl (18 / 100), igv_amount = igvTot, igv_exempt = vatExempt prof,
              percepcion_rate = percRate, percepcion_base = percepBase,
              percepcion_amount = percepAmt, percepcion_rule = percRule,
              sda_applies = sdaApplies, sda_amount = sdaAmt,
              deuda_aduanera = deuda, pago_en_frontera = pagoFrontera,
              result_notes = notes1 @ notes2 @ notes3\<rparr>)"

definition simulate_fp ::
  "(rat \<Rightarrow> rat) \<Rightarrow> SimulationInput \<Rightarrow> RuleProfile \<Rightarrow> SimulationOverrides option
     \<Rightarrow> error + SimulationResult" where
  "simulate_fp fl input prof overrides =
     (case fxRate input of
        None \<Rightarrow> Inl InvalidInput
      | Some fx \<Rightarrow>
          if cifUSD_fp fl input = 0 \<or> fx = 0 then Inl InvalidInput
          else Inr (simulateBody_fp fl input prof overrides fx))"

definition usd_cifUsd_fp :: "(rat \<Rightarrow> rat) \<Rightarrow> usd_SimulationInput \<Rightarrow> rat" where
  "usd_cifUsd_fp fl input =
     (case usd_cif input of
        Some c \<Rightarrow> c
      | None \<Rightarrow>
          plus_fp fl (plus_fp fl (nullish0 (usd_fob input)) (nullish0 (usd_freight input)))
            (nullish0 (usd_insurance input)))"

definition usd_remedy_fp ::
  "(rat \<Rightarrow> rat) \<Rightarrow> RemedyType \<Rightarrow> rat option \<Rightarrow> rat \<times> usd_RemedyItem list
     \<Rightarrow> rat \<times> usd_RemedyItem list" where
  "usd_remedy_fp fl t usd acc =
     (case usd of
        None \<Rightarrow> acc
      | Some v \<Rightarrow>
          if v \<noteq> 0 then
            (let a = round2_fp fl v
             in (plus_fp fl (fst acc) a, snd acc @ [\<lparr>usd_item_type = t, usd_item_amount = a\<rparr>]))
          else acc)"

definition usd_defPerc_fp :: "(rat \<Rightarrow> rat) \<Rightarrow> usd_SimulationInput \<Rightarrow> rat \<times> PerceptionRule" where
  "usd_defPerc_fp fl input =
     (if usd_importerProfile input = Some public \<or> usd_importerProfile input = Some amazon
        then (0, ExcluidoRegimenEspecial)
      else if usd_importerProfile input = Some first_import \<or> usd_importerProfile input = Some no_habido
        then (fl (10 / 100), PrimeraImportacionNoHabido)
      else if truthy (usd_isUsed input) then (fl (5 / 100), BienUsado)
      else (fl (35 / 1000), RegimenGeneral))"

definition usd_simulateBody_fp ::
  "(rat \<Rightarrow> rat) \<Rightarrow> usd_SimulationInput \<Rightarrow> usd_RuleProfile \<Rightarrow> usd_SimulationOverrides
     \<Rightarrow> usd_SimulationResult" where
  "usd_simulateBody_fp fl input prof opts =
     (let cifBase = round2_fp fl (usd_cifUsd_fp fl input);
          avRate = usd_adValoremRate prof;
          avAmt = round2_fp fl (times_fp fl cifBase avRate);
          rate = nullish0 (usd_iscRate opts);
          iscTotal =
            (if usd_iscEnabled opts
             then round2_fp fl (times_fp fl (round2_fp fl (plus_fp fl cifBase avAmt)) rate) else 0);
          iscApplied = (usd_iscEnabled opts \<and> rate > 0);
          iscDetails = (if usd_iscEnabled opts then IscTasa rate else IscDeshabilitado);
          igvApplies = usd_igvEnabled opts;
          igvBase = round2_fp fl (plus_fp fl (plus_fp fl cifBase avAmt) iscTotal);
          igv16 = (if igvApplies then round2_fp fl (times_fp fl igvBase (usd_igvRate prof)) else 0);
          ipm2 = (if igvApplies then round2_fp fl (times_fp fl igvBase (usd_ipmRate prof)) else 0);
          igvTot = round2_fp fl (plus_fp fl igv16 ipm2);
          igvDetails = (if igvApplies then ''Habilitado'' else ''Deshabilitado por el usuario'');
          notes1 = (if igvApplies then [] else [NoteIgvDeshabilitado]);
          remedies =
            usd_remedy_fp fl CVD (usd_countervailingUsd opts)
              (usd_remedy_fp fl AD (usd_antidumpingUsd opts) (0, []));
          remediesTotal = fst remedies;
          defPerc = usd_defPerc_fp fl input;
          percEnabled = usd_perceptionEnabled opts;
          percRate =
            (if percEnabled
             then (case usd_perceptionRate opts of Some p \<Rightarrow> p | None \<Rightarrow> fst defPerc)
             else 0);
          percRule =
            (if percEnabled
             then (case usd_perceptionRate opts of Some p \<Rightarrow> OverrideDePercepcion | None \<Rightarrow> snd defPerc)
             else DeshabilitadoPorUsuario);
          percBase =
            (if percEnabled
             then round2_fp fl (plus_fp fl (plus_fp fl (plus_fp fl igvBase igv16) ipm2) remediesTotal)
             else 0);
          percAmt = (if percEnabled then round2_fp fl (times_fp fl percBase percRate) else 0);
          percApplied = (percEnabled \<and> percRate > 0);
          sdaApplied = (case usd_sdaUsd opts of Some s \<Rightarrow> s > 0 | None \<Rightarrow> False);
          sdaAmt = (if sdaApplied then round2_fp fl (nullish0 (usd_sdaUsd opts)) else 0);
          deuda =
            round2_fp fl
              (plus_fp fl (plus_fp fl (plus_fp fl (plus_fp fl avAmt iscTotal) igvTot) remediesTotal)
                 sdaAmt);
          pagoFrontera = round2_fp fl (plus_fp fl deuda percAmt)
      in \<lparr>usd_cif_pen = cifBase,
              usd_arancel_rate = avRate, usd_arancel_base = cifBase, usd_arancel_amount = avAmt,
              usd_isc_applied = iscApplied, usd_isc_total = iscTotal, usd_isc_details = iscDetails,
              usd_trade_remedies_applied = (length (snd remedies) > 0),
              usd_trade_remedies_items = snd remedies, usd_trade_remedies_total = remediesTotal,
              usd_igv_applied = igvApplies, usd_igv_exempt = False, usd_igv_base = igvBase,
              usd_igv_igv16 = igv16, usd_igv_ipm2 = ipm2, usd_igv_total = igvTot,
              usd_igv_details = igvDetails,
              usd_percepcion_applied = percApplied, usd_percepcion_rate = percRate,
              usd_percepcion_base = percBase, usd_percepcion_amount = percAmt,
              usd_percepcion_rule = percRule,
              usd_sda_applied = sdaApplied, usd_sda_amount = sdaAmt,
              usd_deuda_aduanera = deuda, usd_pago_en_frontera = pagoFrontera,
              usd_notes = notes1\<rparr>)"

definition usd_simulate_fp ::
  "(rat \<Rightarrow> rat) \<Rightarrow> usd_SimulationInput \<Rightarrow> usd_RuleProfile \<Rightarrow> usd_SimulationOverrides
     \<Rightarrow> error + usd_SimulationResult" where
  "usd_simulate_fp fl input prof opts =
     (if usd_cifUsd_fp fl input = 0 then Inl InvalidInput
      else Inr (usd_simulateBody_fp fl input prof opts))"






text \<open>
  The form route of the USD engine admits a trade-remedy amount only when it is not negative:
  \<^verbatim>\<open>antidumping_usd: z.coerce.number().min(0).optional()\<close>,
  \<^verbatim>\<open>compensatorio_usd: z.coerce.number().min(0).optional()\<close>; the route is the engine's only
  caller, and hands the two amounts over as \<^verbatim>\<open>antidumpingUsd\<close> and \<^verbatim>\<open>countervailingUsd\<close>.
\<close>

definition usd_formSchema_remedies :: "usd_SimulationOverrides \<Rightarrow> bool" where
  "usd_formSchema_remedies opts =
     ((case usd_antidumpingUsd opts of None \<Rightarrow> True | Some a \<Rightarrow> 0 \<le> a)
      \<and> (case usd_countervailingUsd opts of None \<Rightarrow> True | Some c \<Rightarrow> 0 \<le> c))"

section \<open>Rounding\<close>

lemma round2_of_int_div: "round2 (of_int k / 100) = of_int k / 100"
proof -
  have "\<lfloor>(of_int k / 100 + EPSILON) * 100 + 1 / 2 :: rat\<rfloor> = k"
    by (rule floor_unique) (simp_all add: EPSILON_def field_simps)
  then show ?thesis by (simp add: round2_def Math_round_def)
qed

lemma cents_round2: "cents (round2 x)"
  by (auto simp: cents_def round2_def)

lemma cents_0: "cents 0"
  unfolding cents_def by (rule exI [of _ 0]) simp

lemma cents_add: "cents x \<Longrightarrow> cents y \<Longrightarrow> cents (x + y)"
  unfolding cents_def
proof (elim exE)
  fix k l :: int
  assume "x = of_int k / 100" "y = of_int l / 100"
  then have "x + y = of_int (k + l) / 100" by (simp add: add_divide_distrib)
  then show "\<exists>m::int. x + y = of_int m / 100" ..
qed

lemma round2_cents:
  assumes "cents x"
  shows "round2 x = x"
proof -
  from assms obtain k :: int where x: "x = of_int k / 100"
    unfolding cents_def by blast
  show ?thesis unfolding x by (rule round2_of_int_div)
qed


section \<open>Facts about the multi-country engine\<close>

lemma cents_remediesLoop:
  "cents (fst acc) \<Longrightarrow> cents (fst (remediesLoop c q rs acc))"
proof (induction rs arbitrary: acc)
  case Nil
  then show ?case by simp
next
  case (Cons r rs)
  obtain t items where acc: "acc = (t, items)" by (cases acc)
  with Cons.prems have "cents t" by simp
  then show ?case
    unfolding acc by (simp add: Let_def Cons.IH cents_add cents_round2)
qed

lemma cents_remedyOverride:
  "cents (fst acc) \<Longrightarrow> cents (fst (remedyOverride t usd fx acc))"
  by (simp add: remedyOverride_def Let_def cents_add cents_round2 split: option.splits)

lemma cents_iscStage: "cents (fst (iscStage input prof c d))"
  by (simp add: iscStage_def Let_def cents_add cents_round2 cents_0 split: option.splits)

lemma simulate_Inr:
  assumes "simulate input prof overrides = Inr r"
  obtains fx where "fxRate input = Some fx" "fx \<noteq> 0" "cifUSD input \<noteq> 0"
    "r = simulateBody input prof overrides fx"
  using assms unfolding simulate_def by (cases "fxRate input") (auto split: if_splits)

lemma body_deuda:
  "deuda_aduanera (simulateBody i p v fx) =
     round2 (arancel_amount (simulateBody i p v fx) + isc_total (simulateBody i p v fx)
             + igv_total (simulateBody i p v fx) + trade_remedies_total (simulateBody i p v fx)
             + sda_amount (simulateBody i p v fx))"
  by (simp add: simulateBody_def Let_def)

lemma body_pago:
  "pago_en_frontera (simulateBody i p v fx) =
     round2 (deuda_aduanera (simulateBody i p v fx) + percepcion_amount (simulateBody i p v fx))"
  by (simp add: simulateBody_def Let_def)

lemma body_igv_total:
  "igv_total (simulateBody i p v fx) =
     round2 (igv_igv16 (simulateBody i p v fx) + igv_ipm2 (simulateBody i p v fx))"
  by (simp add: simulateBody_def Let_def)

lemma body_percep_base:
  "percepcion_base (simulateBody i p v fx) =
     round2 (igv_base (simulateBody i p v fx) + igv_igv16 (simulateBody i p v fx)
             + igv_ipm2 (simulateBody i p v fx) + trade_remedies_total (simulateBody i p v fx))"
  by (simp add: simulateBody_def Let_def)


lemma body_cents:
  "cents (arancel_amount (simulateBody i p v fx))"
  "cents (isc_total (simulateBody i p v fx))"
  "cents (igv_base (simulateBody i p v fx))"
  "cents (igv_igv16 (simulateBody i p v fx))"
  "cents (igv_ipm2 (simulateBody i p v fx))"
  "cents (igv_total (simulateBody i p v fx))"
  "cents (trade_remedies_total (simulateBody i p v fx))"
  "cents (sda_amount (simulateBody i p v fx))"
  "cents (percepcion_amount (simulateBody i p v fx))"
  "cents (deuda_aduanera (simulateBody i p v fx))"
  by (simp_all add: simulateBody_def Let_def cents_round2 cents_0 cents_iscStage
        cents_remedyOverride cents_remediesLoop split: option.split)

lemma w_eval: "simulate w_input w_prof None = Inr w_result"
  by code_simp

section \<open>Facts about the USD engine\<close>

lemma usd_simulate_Inr:
  assumes "usd_simulate input prof opts = Inr r"
  shows "usd_cifUsd input \<noteq> 0" and "r = usd_simulateBody input prof opts"
  using assms unfolding usd_simulate_def by (auto split: if_splits)

lemma cents_usd_remedy:
  "cents (fst acc) \<Longrightarrow> cents (fst (usd_remedy t usd acc))"
  by (simp add: usd_remedy_def Let_def cents_add cents_round2 split: option.splits)

lemma usd_body_deuda:
  "usd_deuda_aduanera (usd_simulateBody i p v) =
     round2 (usd_arancel_amount (usd_simulateBody i p v) + usd_isc_total (usd_simulateBody i p v)
             + usd_igv_total (usd_simulateBody i p v) + usd_trade_remedies_total (usd_simulateBody i p v)
             + usd_sda_amount (usd_simulateBody i p v))"
  by (simp add: usd_simulateBody_def Let_def)

lemma usd_body_pago:
  "usd_pago_en_frontera (usd_simulateBody i p v) =
     round2 (usd_deuda_aduanera (usd_simulateBody i p v) + usd_percepcion_amount (usd_simulateBody i p v))"
  by (simp add: usd_simulateBody_def Let_def)

lemma usd_body_cents:
  "cents (usd_arancel_amount (usd_simulateBody i p v))"
  "cents (usd_isc_total (usd_simulateBody i p v))"
  "cents (usd_igv_base (usd_simulateBody i p v))"
  "cents (usd_igv_igv16 (usd_simulateBody i p v))"
  "cents (usd_igv_ipm2 (usd_simulateBody i p v))"
  "cents (usd_igv_total (usd_simulateBody i p v))"
  "cents (usd_trade_remedies_total (usd_simulateBody i p v))"
  "cents (usd_sda_amount (usd_simulateBody i p v))"
  "cents (usd_percepcion_amount (usd_simulateBody i p v))"
  "cents (usd_deuda_aduanera (usd_simulateBody i p v))"
  by (simp_all add: usd_simulateBody_def Let_def cents_round2 cents_0 cents_usd_remedy)

lemma c8_eval: "usd_simulate c8_input c8_prof c8_opts = Inr c8_result"
  by code_simp

section \<open>Totals\<close>

text \<open>
  In exact arithmetic the customs debt of a returned result is the sum of its duty amount,
  excise total, VAT total, trade-remedy total and special-fee amount, and the amount payable
  at the border is the customs debt plus the perception amount: every summand is a whole
  number of hundredths, so the final rounding changes nothing.
\<close>

lemma exact_totals:
  "(simulate input prof overrides = Inr r \<longrightarrow>
      deuda_aduanera r
        = arancel_amount r + isc_total r + igv_total r + trade_remedies_total r + sda_amount r
      \<and> pago_en_frontera r = deuda_aduanera r + percepcion_amount r)
   \<and> (usd_simulate uinput uprof uopts = Inr ur \<longrightarrow>
      usd_deuda_aduanera ur
        = usd_arancel_amount ur + usd_isc_total ur + usd_igv_total ur
          + usd_trade_remedies_total ur + usd_sda_amount ur
      \<and> usd_pago_en_frontera ur = usd_deuda_aduanera ur + usd_percepcion_amount ur)"
proof (intro conjI impI)
  assume "simulate input prof overrides = Inr r"
  then obtain fx where r: "r = simulateBody input prof overrides fx"
    by (rule simulate_Inr)
  show "deuda_aduanera r
        = arancel_amount r + isc_total r + igv_total r + trade_remedies_total r + sda_amount r"
    unfolding r by (subst body_deuda) (intro round2_cents cents_add body_cents)
  show "pago_en_frontera r = deuda_aduanera r + percepcion_amount r"
    unfolding r by (subst body_pago) (intro round2_cents cents_add body_cents)
next
  assume "usd_simulate uinput uprof uopts = Inr ur"
  then have r: "ur = usd_simulateBody uinput uprof uopts"
    by (rule usd_simulate_Inr)
  show "usd_deuda_aduanera ur
        = usd_arancel_amount ur + usd_isc_total ur + usd_igv_total ur
          + usd_trade_remedies_total ur + usd_sda_amount ur"
    unfolding r by (subst usd_body_deuda) (intro round2_cents cents_add usd_body_cents)
  show "usd_pago_en_frontera ur = usd_deuda_aduanera ur + usd_percepcion_amount ur"
    unfolding r by (subst usd_body_pago) (intro round2_cents cents_add usd_body_cents)
qed

section \<open>The USD scenario\<close>

text \<open>
  Claim C8. In the USD engine, FOB 1000.00, freight 150.00 and insurance 50.00 with a 6%
  duty, excise off, VAT on at 16% and 2% and perception off give: base 1200.00, duty 72.00,
  VAT base 1272.00, VAT 203.52 and 25.44 (228.96 in all), perception 0, customs debt 300.96
  and 300.96 payable at the border.
\<close>

theorem usd_scenario:
  "usd_simulate
     \<lparr>usd_hs10 = ''4819100000'', usd_fxRate = None, usd_cif = None,
      usd_fob = Some 1000, usd_freight = Some 150, usd_insurance = Some 50,
      usd_importerProfile = None, usd_isUsed = None\<rparr>
     \<lparr>usd_adValoremRate = 6 / 100, usd_igvRate = 16 / 100, usd_ipmRate = 2 / 100\<rparr>
     \<lparr>usd_igvEnabled = True, usd_iscEnabled = False, usd_perceptionEnabled = False,
      usd_iscRate = None, usd_antidumpingUsd = None, usd_countervailingUsd = None,
      usd_perceptionRate = None, usd_sdaUsd = None\<rparr>
   = Inr \<lparr>usd_cif_pen = 1200,
          usd_arancel_rate = 6 / 100, usd_arancel_base = 1200, usd_arancel_amount = 72,
          usd_isc_applied = False, usd_isc_total = 0, usd_isc_details = IscDeshabilitado,
          usd_trade_remedies_applied = False, usd_trade_remedies_items = [],
          usd_trade_remedies_total = 0,
          usd_igv_applied = True, usd_igv_exempt = False, usd_igv_base = 1272,
          usd_igv_igv16 = 20352 / 100, usd_igv_ipm2 = 2544 / 100, usd_igv_total = 22896 / 100,
          usd_igv_details = ''Habilitado'',
          usd_percepcion_applied = False, usd_percepcion_rate = 0, usd_percepcion_base = 0,
          usd_percepcion_amount = 0, usd_percepcion_rule = DeshabilitadoPorUsuario,
          usd_sda_applied = False, usd_sda_amount = 0,
          usd_deuda_aduanera = 30096 / 100, usd_pago_en_frontera = 30096 / 100,
          usd_notes = []\<rparr>"
  by code_simp

section \<open>Duty rate\<close>

lemma body_arancel_rate:
  "arancel_rate (simulateBody i p v fx) =
     (case ov v adValoremRate of
        Some a \<Rightarrow> a
      | None \<Rightarrow>
          (case ftaRate p of
             Some f \<Rightarrow> if truthy (useFTA i) then min (mfnRate p) f else mfnRate p
           | None \<Rightarrow> mfnRate p))"
  by (simp add: simulateBody_def Let_def)

lemma body_notes:
  "result_notes (simulateBody i p v fx) =
     (case ov v adValoremRate of
        Some a \<Rightarrow> [NoteOverrideArancel]
      | None \<Rightarrow>
          (case ftaRate p of
             Some f \<Rightarrow> if truthy (useFTA i) \<and> f < mfnRate p then [NotePreferenciaTLC] else []
           | None \<Rightarrow> []))
     @ (if vatExempt p then [NoteExoneradoIGV] else [])
     @ map (\<lambda>q. NotePermiso (authority q)
                   (case permit_note q of
                      None \<Rightarrow> None
                    | Some n \<Rightarrow> if n = [] then None else Some n))
           (permits p)"
  by (simp add: simulateBody_def Let_def)

lemma body_arancel_amount:
  "arancel_amount (simulateBody i p v fx) =
     round2 (cif_pen (simulateBody i p v fx) * arancel_rate (simulateBody i p v fx))"
  by (simp add: simulateBody_def Let_def)

lemma truthy_iff: "truthy b \<longleftrightarrow> b = Some True"
  by (cases b) (simp_all add: truthy_def)

text \<open>
  Claim C6. In the multi-country engine an ad-valorem override, when present, is the applied
  duty rate. Without one: if the preference flag is set and a preferential rate exists below
  the MFN rate, the applied rate is the preferential rate and the preference note is
  recorded; in every other case the applied rate is the MFN rate and no preference note is
  recorded. The duty is the customs value times the applied rate, rounded.
\<close>

theorem duty_rate_selection:
  assumes "simulate input prof overrides = Inr r"
  shows "(\<forall>a. ov overrides adValoremRate = Some a \<longrightarrow>
            arancel_rate r = a \<and> NoteOverrideArancel \<in> set (result_notes r))
       \<and> (ov overrides adValoremRate = None \<longrightarrow>
            (\<forall>f. useFTA input = Some True \<and> ftaRate prof = Some f \<and> f < mfnRate prof \<longrightarrow>
                 arancel_rate r = f \<and> NotePreferenciaTLC \<in> set (result_notes r))
          \<and> (\<not> (useFTA input = Some True \<and> (\<exists>f. ftaRate prof = Some f \<and> f < mfnRate prof)) \<longrightarrow>
                 arancel_rate r = mfnRate prof \<and> NotePreferenciaTLC \<notin> set (result_notes r)))
       \<and> arancel_amount r = round2 (cif_pen r * arancel_rate r)"
proof -
  from assms obtain fx where r: "r = simulateBody input prof overrides fx"
    by (rule simulate_Inr)
  have rate: "\<forall>a. ov overrides adValoremRate = Some a \<longrightarrow>
            arancel_rate r = a \<and> NoteOverrideArancel \<in> set (result_notes r)"
    unfolding r by (simp add: body_arancel_rate body_notes)
  have pref: "ov overrides adValoremRate = None \<longrightarrow>
            (\<forall>f. useFTA input = Some True \<and> ftaRate prof = Some f \<and> f < mfnRate prof \<longrightarrow>
                 arancel_rate r = f \<and> NotePreferenciaTLC \<in> set (result_notes r))"
    unfolding r by (simp add: body_arancel_rate body_notes truthy_iff min_def)
  have mfn: "ov overrides adValoremRate = None \<longrightarrow>
          (\<not> (useFTA input = Some True \<and> (\<exists>f. ftaRate prof = Some f \<and> f < mfnRate prof)) \<longrightarrow>
                 arancel_rate r = mfnRate prof \<and> NotePreferenciaTLC \<notin> set (result_notes r))"
    unfolding r
    by (cases "ftaRate prof") (auto simp: body_arancel_rate body_notes truthy_iff min_def)
  have amt: "arancel_amount r = round2 (cif_pen r * arancel_rate r)"
    unfolding r by (rule body_arancel_amount)
  from rate pref mfn amt show ?thesis by blast
qed

theorem duty_rate_selection_witness:
  "simulate w_input w_prof None = Inr w_result
   \<and> ov None adValoremRate = None
   \<and> useFTA w_input = Some True \<and> ftaRate w_prof = Some 0 \<and> 0 < mfnRate w_prof
   \<and> arancel_rate w_result = 0 \<and> NotePreferenciaTLC \<in> set (result_notes w_result)
   \<and> arancel_amount w_result = round2 (cif_pen w_result * arancel_rate w_result)"
  using duty_rate_selection [OF w_eval] w_eval
  by (simp add: ov_def w_input_def w_prof_def)

section \<open>Perception\<close>


lemma body_percepcion_rule:
  "percepcion_rule (simulateBody i p v fx) =
     (case ov v perceptionRate of
        Some q \<Rightarrow> if q = 0 then PercepcionOverrideCero else PercepcionOverride
      | None \<Rightarrow> snd (defaultPerception (importerProfile i) (isUsed i)))"
  by (simp add: simulateBody_def Let_def split: option.split)

text \<open>
  In exact arithmetic the perception base is the VAT base plus the VAT total plus the
  trade-remedy total: the summands are whole numbers of hundredths.
\<close>

lemma exact_perception_base:
  assumes "simulate input prof overrides = Inr r"
  shows "percepcion_base r = igv_base r + igv_total r + trade_remedies_total r"
proof -
  from assms obtain fx where r: "r = simulateBody input prof overrides fx"
    by (rule simulate_Inr)
  have tot: "igv_total r = igv_igv16 r + igv_ipm2 r"
    unfolding r by (subst body_igv_total) (intro round2_cents cents_add body_cents)
  show ?thesis
    unfolding tot unfolding r
    by (subst body_percep_base) (simp add: round2_cents cents_add body_cents)
qed

section \<open>Missing basis\<close>

lemma simulate_error_iff:
  "simulate input prof overrides = Inl InvalidInput
     \<longleftrightarrow> cifUSD input = 0 \<or> fxRate input = None \<or> fxRate input = Some 0"
  by (cases "fxRate input") (auto simp: simulate_def)

lemma simulate_result_iff:
  "(\<exists>r. simulate input prof overrides = Inr r)
     \<longleftrightarrow> cifUSD input \<noteq> 0 \<and> (\<exists>fx. fxRate input = Some fx \<and> fx \<noteq> 0)"
  by (cases "fxRate input") (auto simp: simulate_def)

lemma usd_simulate_error_iff:
  "usd_simulate uinput uprof uopts = Inl InvalidInput \<longleftrightarrow> usd_cifUsd uinput = 0"
  by (simp add: usd_simulate_def)

lemma usd_simulate_result_iff:
  "(\<exists>r. usd_simulate uinput uprof uopts = Inr r) \<longleftrightarrow> usd_cifUsd uinput \<noteq> 0"
  by (simp add: usd_simulate_def)

text \<open>
  Claim C2 as stated fails on the code: a direct customs value of 0 is supplied and the
  engine still fails, and FOB alone (neither a direct value nor all three components) is
  accepted.
\<close>

theorem missing_basis_counterexample:
  "\<not> (simulate c2_zero_cif w_prof None = Inl InvalidInput
        \<longleftrightarrow> \<not> (spec_suppliesBasis c2_zero_cif \<and> fxRate c2_zero_cif \<noteq> None))
   \<and> \<not> (simulate c2_fob_only w_prof None = Inl InvalidInput
        \<longleftrightarrow> \<not> (spec_suppliesBasis c2_fob_only \<and> fxRate c2_fob_only \<noteq> None))"
  by (simp add: simulate_error_iff spec_suppliesBasis_def c2_zero_cif_def c2_fob_only_def
        w_input_def cifUSD_def nullish0_def)

text \<open>
  Claim C2, amended. The engine fails with InvalidInput exactly when the resolved customs
  value is 0, the resolved value being the direct value when one is supplied and otherwise
  the sum of FOB, freight and insurance with each absent component counted as 0; the
  multi-country engine fails also when the exchange rate is absent or 0. The failure depends
  on the input alone, not on the profile or the overrides, and in every other case the
  engine returns a result.
\<close>

theorem invalid_input_condition:
  "(simulate input prof overrides = Inl InvalidInput
      \<longleftrightarrow> cifUSD input = 0 \<or> fxRate input = None \<or> fxRate input = Some 0)
   \<and> ((\<exists>r. simulate input prof overrides = Inr r)
      \<longleftrightarrow> cifUSD input \<noteq> 0 \<and> (\<exists>fx. fxRate input = Some fx \<and> fx \<noteq> 0))
   \<and> (simulate input prof overrides = Inl InvalidInput
      \<longleftrightarrow> simulate input prof' overrides' = Inl InvalidInput)
   \<and> cifUSD input
        = (case cif input of
             Some c \<Rightarrow> c
           | None \<Rightarrow>
               (case fob input of Some x \<Rightarrow> x | None \<Rightarrow> 0)
               + (case freight input of Some x \<Rightarrow> x | None \<Rightarrow> 0)
               + (case insurance input of Some x \<Rightarrow> x | None \<Rightarrow> 0))
   \<and> (usd_simulate uinput uprof uopts = Inl InvalidInput \<longleftrightarrow> usd_cifUsd uinput = 0)
   \<and> ((\<exists>r. usd_simulate uinput uprof uopts = Inr r) \<longleftrightarrow> usd_cifUsd uinput \<noteq> 0)
   \<and> (usd_simulate uinput uprof uopts = Inl InvalidInput
      \<longleftrightarrow> usd_simulate uinput uprof' uopts' = Inl InvalidInput)
   \<and> usd_cifUsd uinput
        = (case usd_cif uinput of
             Some c \<Rightarrow> c
           | None \<Rightarrow>
               (case usd_fob uinput of Some x \<Rightarrow> x | None \<Rightarrow> 0)
               + (case usd_freight uinput of Some x \<Rightarrow> x | None \<Rightarrow> 0)
               + (case usd_insurance uinput of Some x \<Rightarrow> x | None \<Rightarrow> 0))"
  by (simp add: simulate_error_iff simulate_result_iff usd_simulate_error_iff
        usd_simulate_result_iff cifUSD_def usd_cifUsd_def nullish0_def split: option.split)

theorem invalid_input_condition_witness:
  "simulate c2_zero_cif w_prof None = Inl InvalidInput
   \<and> (\<exists>r. simulate c2_fob_only w_prof None = Inr r)
   \<and> (\<exists>r. usd_simulate c8_input c8_prof c8_opts = Inr r)"
proof -
  have zero: "cifUSD c2_zero_cif = 0"
    by (simp add: c2_zero_cif_def cifUSD_def)
  have fob: "cifUSD c2_fob_only \<noteq> 0"
    by (simp add: c2_fob_only_def w_input_def cifUSD_def nullish0_def)
  have fx: "fxRate c2_fob_only = Some (375 / 100) \<and> (375 / 100 :: rat) \<noteq> 0"
    by (simp add: c2_fob_only_def w_input_def)
  have usd: "usd_cifUsd c8_input \<noteq> 0"
    by (simp add: c8_input_def usd_cifUsd_def nullish0_def)
  from zero
    invalid_input_condition [of c2_zero_cif w_prof None w_prof None c8_input c8_prof c8_opts c8_prof c8_opts]
  have 1: "simulate c2_zero_cif w_prof None = Inl InvalidInput" by blast
  from fob fx usd
    invalid_input_condition [of c2_fob_only w_prof None w_prof None c8_input c8_prof c8_opts c8_prof c8_opts]
  have 2: "(\<exists>r. simulate c2_fob_only w_prof None = Inr r)
           \<and> (\<exists>r. usd_simulate c8_input c8_prof c8_opts = Inr r)" by blast
  from 1 2 show ?thesis by blast
qed

section \<open>Mixed excise\<close>

lemma find_first:
  assumes "\<forall>c\<in>set pre. \<not> P c" and "P b"
  shows "find P (pre @ b # post) = Some b"
  using assms by (induction pre) simp_all

lemma find_none:
  assumes "\<forall>c\<in>set bands. \<not> P c"
  shows "find P bands = None"
  using assms by (induction bands) simp_all

lemma body_isc_total:
  "isc_total (simulateBody i p v fx)
     = fst (iscStage i p (cif_pen (simulateBody i p v fx)) (arancel_amount (simulateBody i p v fx)))"
  by (simp add: simulateBody_def Let_def)

lemma iscStage_mixed:
  assumes "iscRule p = Some rule" and "system rule = sys_mixed"
  shows "fst (iscStage i p c d)
           = round2 (nullish0 (quantity i)
                     * (case pickIscSpecificFromBands (params rule) (alcoholDegree i) of
                          Some s \<Rightarrow> s
                        | None \<Rightarrow> nullish0 (specificAmount rule)))
             + round2 ((c + d) * nullish0 (adValRate rule))"
  using assms by (simp add: iscStage_def Let_def)

text \<open>
  Claim C3 as stated fails on the code: with no alcohol strength supplied and a flat amount
  of 1 per unit, 100 units are charged 125 (the first band's 1.25 per unit, matched at
  strength 0) plus the ad-valorem 900, not the flat 100 plus 900.
\<close>

theorem mixed_excise_counterexample:
  "alcoholDegree c3_input = None
   \<and> map_sum id isc_total (simulate c3_input w_prof None) = Inr 1025
   \<and> map_sum id (\<lambda>r. round2 (100 * 1) + round2 ((cif_pen r + arancel_amount r) * (20 / 100)))
        (simulate c3_input w_prof None) = Inr 1000"
  by code_simp

text \<open>
  Claim C3, amended. Under the mixed regime of the multi-country engine the strength used for
  matching is the input strength, or 0 when none is supplied. The per-unit amount is that
  of the first band, in order, with a numeric maximum not below the strength, when that
  band carries a numeric amount; the flat amount (0 when absent) is used when the matched
  band carries none, when no band matches and when there is no band list. Total excise is
  quantity times the per-unit amount, rounded, plus the ad-valorem rate times (customs value
  + duty), rounded.
\<close>

theorem mixed_excise:
  assumes "simulate input prof overrides = Inr r"
    and "iscRule prof = Some rule" and "system rule = sys_mixed"
  shows "(\<forall>pre b post.
            params rule = Some (pre @ b # post)
            \<and> (\<forall>c\<in>set pre. \<not> bandMatches (nullish0 (alcoholDegree input)) c)
            \<and> bandMatches (nullish0 (alcoholDegree input)) b
            \<longrightarrow> isc_total r
                  = round2 (nullish0 (quantity input)
                            * (case specific_per_l_pen b of
                                 Some s \<Rightarrow> s
                               | None \<Rightarrow> nullish0 (specificAmount rule)))
                    + round2 ((cif_pen r + arancel_amount r) * nullish0 (adValRate rule)))
       \<and> (\<forall>bands.
            params rule = Some bands
            \<and> (\<forall>c\<in>set bands. \<not> bandMatches (nullish0 (alcoholDegree input)) c)
            \<longrightarrow> isc_total r
                  = round2 (nullish0 (quantity input) * nullish0 (specificAmount rule))
                    + round2 ((cif_pen r + arancel_amount r) * nullish0 (adValRate rule)))
       \<and> (params rule = None
            \<longrightarrow> isc_total r
                  = round2 (nullish0 (quantity input) * nullish0 (specificAmount rule))
                    + round2 ((cif_pen r + arancel_amount r) * nullish0 (adValRate rule)))
       \<and> (\<forall>deg c. bandMatches deg c \<longleftrightarrow> (\<exists>m. max_abv c = Some m \<and> deg \<le> m))
       \<and> nullish0 (alcoholDegree input) = (case alcoholDegree input of Some d \<Rightarrow> d | None \<Rightarrow> 0)"
proof -
  from assms(1) obtain fx where r: "r = simulateBody input prof overrides fx"
    by (rule simulate_Inr)
  have tot: "isc_total r
           = round2 (nullish0 (quantity input)
                     * (case pickIscSpecificFromBands (params rule) (alcoholDegree input) of
                          Some s \<Rightarrow> s
                        | None \<Rightarrow> nullish0 (specificAmount rule)))
             + round2 ((cif_pen r + arancel_amount r) * nullish0 (adValRate rule))"
    unfolding r body_isc_total by (rule iscStage_mixed [OF assms(2,3)])
  have first: "\<forall>pre b post.
            params rule = Some (pre @ b # post)
            \<and> (\<forall>c\<in>set pre. \<not> bandMatches (nullish0 (alcoholDegree input)) c)
            \<and> bandMatches (nullish0 (alcoholDegree input)) b
            \<longrightarrow> isc_total r
                  = round2 (nullish0 (quantity input)
                            * (case specific_per_l_pen b of
                                 Some s \<Rightarrow> s
                               | None \<Rightarrow> nullish0 (specificAmount rule)))
                    + round2 ((cif_pen r + arancel_amount r) * nullish0 (adValRate rule))"
    unfolding tot by (auto simp: pickIscSpecificFromBands_def Let_def find_first)
  have nomatch: "\<forall>bands.
            params rule = Some bands
            \<and> (\<forall>c\<in>set bands. \<not> bandMatches (nullish0 (alcoholDegree input)) c)
            \<longrightarrow> isc_total r
                  = round2 (nullish0 (quantity input) * nullish0 (specificAmount rule))
                    + round2 ((cif_pen r + arancel_amount r) * nullish0 (adValRate rule))"
    unfolding tot by (auto simp: pickIscSpecificFromBands_def Let_def find_none)
  have nobands: "params rule = None
            \<longrightarrow> isc_total r
                  = round2 (nullish0 (quantity input) * nullish0 (specificAmount rule))
                    + round2 ((cif_pen r + arancel_amount r) * nullish0 (adValRate rule))"
    unfolding tot by (simp add: pickIscSpecificFromBands_def)
  have bm: "\<forall>deg c. bandMatches deg c \<longleftrightarrow> (\<exists>m. max_abv c = Some m \<and> deg \<le> m)"
    by (simp add: bandMatches_def split: option.split)
  have deg: "nullish0 (alcoholDegree input) = (case alcoholDegree input of Some d \<Rightarrow> d | None \<Rightarrow> 0)"
    by (simp add: nullish0_def)
  from first nomatch nobands bm deg show ?thesis by blast
qed

theorem mixed_excise_witness:
  "simulate w_input w_prof None = Inr w_result
   \<and> iscRule w_prof = Some w_rule \<and> system w_rule = sys_mixed
   \<and> isc_total w_result = round2 (100 * (5 / 2)) + round2 ((4500 + 0) * (20 / 100))"
proof -
  have rule: "iscRule w_prof = Some w_rule" and sys: "system w_rule = sys_mixed"
    by (simp_all add: w_prof_def w_rule_def)
  have bands: "params w_rule
      = Some ([\<lparr>max_abv = Some 6, specific_per_l_pen = Some (5 / 4)\<rparr>]
              @ \<lparr>max_abv = Some 20, specific_per_l_pen = Some (5 / 2)\<rparr> # [])"
    by (simp add: w_rule_def)
  have skip: "\<forall>c\<in>set [\<lparr>max_abv = Some 6, specific_per_l_pen = Some (5 / 4)\<rparr>].
                \<not> bandMatches (nullish0 (alcoholDegree w_input)) c"
    by (simp add: bandMatches_def nullish0_def w_input_def)
  have hit: "bandMatches (nullish0 (alcoholDegree w_input))
               \<lparr>max_abv = Some 20, specific_per_l_pen = Some (5 / 2)\<rparr>"
    by (simp add: bandMatches_def nullish0_def w_input_def)
  from mixed_excise [OF w_eval rule sys] bands skip hit
  have "isc_total w_result
          = round2 (nullish0 (quantity w_input)
                    * (case specific_per_l_pen \<lparr>max_abv = Some 20, specific_per_l_pen = Some (5 / 2)\<rparr> of
                         Some s \<Rightarrow> s
                       | None \<Rightarrow> nullish0 (specificAmount w_rule)))
            + round2 ((cif_pen w_result + arancel_amount w_result) * nullish0 (adValRate w_rule))"
    by blast
  then have "isc_total w_result = round2 (100 * (5 / 2)) + round2 ((4500 + 0) * (20 / 100))"
    by (simp add: nullish0_def w_input_def w_rule_def w_result_def)
  with w_eval rule sys show ?thesis by blast
qed

section \<open>Special customs fee\<close>

lemma body_sda:
  "sda_applies (simulateBody i p v fx)
     = (case ov v sdaUsd of
          Some s \<Rightarrow> s > 0
        | None \<Rightarrow> cif_pen (simulateBody i p v fx) > uit (adminFees p) * thresholdUIT (adminFees p))"
  "sda_amount (simulateBody i p v fx)
     = (case ov v sdaUsd of
          Some s \<Rightarrow> round2 (s * fx)
        | None \<Rightarrow>
            if sda_applies (simulateBody i p v fx)
            then round2 (uit (adminFees p) * sdaRate (adminFees p)) else 0)"
  by (simp_all add: simulateBody_def Let_def split: option.split)

lemma usd_body_sda:
  "usd_sda_applied (usd_simulateBody i p v)
     = (case usd_sdaUsd v of Some s \<Rightarrow> s > 0 | None \<Rightarrow> False)"
  "usd_sda_amount (usd_simulateBody i p v)
     = (case usd_sdaUsd v of Some s \<Rightarrow> if s > 0 then round2 s else 0 | None \<Rightarrow> 0)"
  by (simp_all add: usd_simulateBody_def Let_def nullish0_def split: option.split)

lemma round2_0: "round2 0 = 0"
  by (rule round2_cents) (rule cents_0)

text \<open>
  Claim C7 as stated fails on the USD engine: with no override and a customs value of 20200,
  above a threshold of 3 reference units of 5350, no special fee applies.
\<close>

theorem special_fee_counterexample:
  "usd_sdaUsd c8_opts = None
   \<and> map_sum id usd_cif_pen (usd_simulate c7_input c8_prof c8_opts) = Inr 20200
   \<and> uit (adminFees w_prof) * thresholdUIT (adminFees w_prof) = 16050
   \<and> (16050 :: rat) < 20200
   \<and> map_sum id usd_sda_applied (usd_simulate c7_input c8_prof c8_opts) = Inr False
   \<and> map_sum id usd_sda_amount (usd_simulate c7_input c8_prof c8_opts) = Inr 0"
  by code_simp

text \<open>
  Claim C7, amended. With an override amount s, in both engines the fee applies exactly when
  s is positive; a positive s gives the amount s, converted with the exchange rate in the
  multi-country engine, rounded; s = 0 gives 0. Without an override the multi-country
  engine applies the fee exactly when the customs value exceeds reference unit times
  threshold multiplier, the amount being the fee rate times the reference unit, rounded, and
  0 otherwise; the USD engine has no threshold rule: the fee does not apply and is 0.
\<close>

theorem special_fee:
  "(simulate input prof overrides = Inr r \<longrightarrow>
      (\<forall>s. ov overrides sdaUsd = Some s \<longrightarrow>
           (sda_applies r \<longleftrightarrow> s > 0)
           \<and> (s > 0 \<longrightarrow> (\<exists>fx. fxRate input = Some fx \<and> sda_amount r = round2 (s * fx)))
           \<and> (s = 0 \<longrightarrow> sda_amount r = 0))
      \<and> (ov overrides sdaUsd = None \<longrightarrow>
           (sda_applies r \<longleftrightarrow> cif_pen r > uit (adminFees prof) * thresholdUIT (adminFees prof))
           \<and> sda_amount r
               = (if sda_applies r then round2 (uit (adminFees prof) * sdaRate (adminFees prof))
                  else 0)))
   \<and> (usd_simulate uinput uprof uopts = Inr ur \<longrightarrow>
      (\<forall>s. usd_sdaUsd uopts = Some s \<longrightarrow>
           (usd_sda_applied ur \<longleftrightarrow> s > 0)
           \<and> usd_sda_amount ur = (if s > 0 then round2 s else 0))
      \<and> (usd_sdaUsd uopts = None \<longrightarrow> \<not> usd_sda_applied ur \<and> usd_sda_amount ur = 0))"
proof -
  have multi: "simulate input prof overrides = Inr r \<longrightarrow>
      (\<forall>s. ov overrides sdaUsd = Some s \<longrightarrow>
           (sda_applies r \<longleftrightarrow> s > 0)
           \<and> (s > 0 \<longrightarrow> (\<exists>fx. fxRate input = Some fx \<and> sda_amount r = round2 (s * fx)))
           \<and> (s = 0 \<longrightarrow> sda_amount r = 0))
      \<and> (ov overrides sdaUsd = None \<longrightarrow>
           (sda_applies r \<longleftrightarrow> cif_pen r > uit (adminFees prof) * thresholdUIT (adminFees prof))
           \<and> sda_amount r
               = (if sda_applies r then round2 (uit (adminFees prof) * sdaRate (adminFees prof))
                  else 0))"
  proof
    assume "simulate input prof overrides = Inr r"
    then obtain fx where fx: "fxRate input = Some fx"
      and r: "r = simulateBody input prof overrides fx"
      by (rule simulate_Inr)
    show "(\<forall>s. ov overrides sdaUsd = Some s \<longrightarrow>
           (sda_applies r \<longleftrightarrow> s > 0)
           \<and> (s > 0 \<longrightarrow> (\<exists>fx. fxRate input = Some fx \<and> sda_amount r = round2 (s * fx)))
           \<and> (s = 0 \<longrightarrow> sda_amount r = 0))
      \<and> (ov overrides sdaUsd = None \<longrightarrow>
           (sda_applies r \<longleftrightarrow> cif_pen r > uit (adminFees prof) * thresholdUIT (adminFees prof))
           \<and> sda_amount r
               = (if sda_applies r then round2 (uit (adminFees prof) * sdaRate (adminFees prof))
                  else 0))"
      unfolding r by (simp add: body_sda fx round2_0)
  qed
  have usd: "usd_simulate uinput uprof uopts = Inr ur \<longrightarrow>
      (\<forall>s. usd_sdaUsd uopts = Some s \<longrightarrow>
           (usd_sda_applied ur \<longleftrightarrow> s > 0)
           \<and> usd_sda_amount ur = (if s > 0 then round2 s else 0))
      \<and> (usd_sdaUsd uopts = None \<longrightarrow> \<not> usd_sda_applied ur \<and> usd_sda_amount ur = 0)"
  proof
    assume "usd_simulate uinput uprof uopts = Inr ur"
    then have r: "ur = usd_simulateBody uinput uprof uopts"
      by (rule usd_simulate_Inr)
    show "(\<forall>s. usd_sdaUsd uopts = Some s \<longrightarrow>
           (usd_sda_applied ur \<longleftrightarrow> s > 0)
           \<and> usd_sda_amount ur = (if s > 0 then round2 s else 0))
      \<and> (usd_sdaUsd uopts = None \<longrightarrow> \<not> usd_sda_applied ur \<and> usd_sda_amount ur = 0)"
      unfolding r by (simp add: usd_body_sda)
  qed
  from multi usd show ?thesis by (rule conjI)
qed

theorem special_fee_witness:
  "simulate w_input w_prof None = Inr w_result
   \<and> ov None sdaUsd = None
   \<and> \<not> sda_applies w_result \<and> \<not> 4500 > uit (adminFees w_prof) * thresholdUIT (adminFees w_prof)
   \<and> sda_amount w_result = 0
   \<and> usd_simulate c8_input c8_prof c8_opts = Inr c8_result
   \<and> usd_sdaUsd c8_opts = None
   \<and> \<not> usd_sda_applied c8_result \<and> usd_sda_amount c8_result = 0"
  using special_fee [of w_input w_prof None w_result c8_input c8_prof c8_opts c8_result]
    w_eval c8_eval
  by (simp add: ov_def w_prof_def w_result_def c8_opts_def c8_result_def)

section \<open>Monotonicity in the customs value\<close>











lemma usd_body_fields:
  "usd_cif_pen (usd_simulateBody i p v) = round2 (usd_cifUsd i)"
  "usd_arancel_amount (usd_simulateBody i p v)
     = round2 (usd_cif_pen (usd_simulateBody i p v) * usd_adValoremRate p)"
  "usd_isc_total (usd_simulateBody i p v)
     = (if usd_iscEnabled v
        then round2 (round2 (usd_cif_pen (usd_simulateBody i p v)
                             + usd_arancel_amount (usd_simulateBody i p v))
                     * nullish0 (usd_iscRate v))
        else 0)"
  "usd_igv_base (usd_simulateBody i p v)
     = round2 (usd_cif_pen (usd_simulateBody i p v) + usd_arancel_amount (usd_simulateBody i p v)
               + usd_isc_total (usd_simulateBody i p v))"
  "usd_igv_igv16 (usd_simulateBody i p v)
     = (if usd_igvEnabled v then round2 (usd_igv_base (usd_simulateBody i p v) * usd_igvRate p) else 0)"
  "usd_igv_ipm2 (usd_simulateBody i p v)
     = (if usd_igvEnabled v then round2 (usd_igv_base (usd_simulateBody i p v) * usd_ipmRate p) else 0)"
  "usd_igv_total (usd_simulateBody i p v)
     = round2 (usd_igv_igv16 (usd_simulateBody i p v) + usd_igv_ipm2 (usd_simulateBody i p v))"
  by (simp_all add: usd_simulateBody_def Let_def)

lemma usd_body_perception:
  "usd_trade_remedies_total (usd_simulateBody i p v)
     = fst (usd_remedy CVD (usd_countervailingUsd v) (usd_remedy AD (usd_antidumpingUsd v) (0, [])))"
  "usd_percepcion_rate (usd_simulateBody i p v)
     = (if usd_perceptionEnabled v
        then (case usd_perceptionRate v of Some q \<Rightarrow> q | None \<Rightarrow> fst (usd_defPerc i))
        else 0)"
  "usd_percepcion_base (usd_simulateBody i p v)
     = (if usd_perceptionEnabled v
        then round2 (usd_igv_base (usd_simulateBody i p v) + usd_igv_igv16 (usd_simulateBody i p v)
                     + usd_igv_ipm2 (usd_simulateBody i p v)
                     + usd_trade_remedies_total (usd_simulateBody i p v))
        else 0)"
  "usd_percepcion_amount (usd_simulateBody i p v)
     = (if usd_perceptionEnabled v
        then round2 (usd_percepcion_base (usd_simulateBody i p v)
                     * usd_percepcion_rate (usd_simulateBody i p v))
        else 0)"
  by (simp_all add: usd_simulateBody_def Let_def)






section \<open>Trade-remedy overrides\<close>

text \<open>
  In the multi-country engine an override that is 0 or negative leaves the result as it is
  without the override; in the USD engine an override of 0 does.
\<close>

lemma remedyOverride_nonpositive:
  "v \<le> 0 \<Longrightarrow> remedyOverride t (Some v) fx acc = remedyOverride t None fx acc"
  by (simp add: remedyOverride_def)

lemma simulateBody_remedy_cong:
  assumes "ov v adValoremRate = ov w adValoremRate"
    and "ov v perceptionRate = ov w perceptionRate"
    and "ov v sdaUsd = ov w sdaUsd"
    and "\<And>acc. remedyOverride AD (ov v antidumpingUsd) fx acc
                = remedyOverride AD (ov w antidumpingUsd) fx acc"
    and "\<And>acc. remedyOverride CVD (ov v countervailingUsd) fx acc
                = remedyOverride CVD (ov w countervailingUsd) fx acc"
  shows "simulateBody i p v fx = simulateBody i p w fx"
  unfolding simulateBody_def Let_def assms ..

lemma nonpositive_remedy_override:
  assumes "v \<le> 0"
  shows "simulate input prof (Some (ovr\<lparr>antidumpingUsd := Some v\<rparr>))
           = simulate input prof (Some (ovr\<lparr>antidumpingUsd := None\<rparr>))"
    and "simulate input prof (Some (ovr\<lparr>countervailingUsd := Some v\<rparr>))
           = simulate input prof (Some (ovr\<lparr>countervailingUsd := None\<rparr>))"
proof -
  have a: "simulateBody input prof (Some (ovr\<lparr>antidumpingUsd := Some v\<rparr>)) fx
         = simulateBody input prof (Some (ovr\<lparr>antidumpingUsd := None\<rparr>)) fx" for fx
    by (rule simulateBody_remedy_cong) (simp_all add: ov_def remedyOverride_nonpositive assms)
  have c: "simulateBody input prof (Some (ovr\<lparr>countervailingUsd := Some v\<rparr>)) fx
         = simulateBody input prof (Some (ovr\<lparr>countervailingUsd := None\<rparr>)) fx" for fx
    by (rule simulateBody_remedy_cong) (simp_all add: ov_def remedyOverride_nonpositive assms)
  show "simulate input prof (Some (ovr\<lparr>antidumpingUsd := Some v\<rparr>))
           = simulate input prof (Some (ovr\<lparr>antidumpingUsd := None\<rparr>))"
    by (simp add: simulate_def a split: option.split)
  show "simulate input prof (Some (ovr\<lparr>countervailingUsd := Some v\<rparr>))
           = simulate input prof (Some (ovr\<lparr>countervailingUsd := None\<rparr>))"
    by (simp add: simulate_def c split: option.split)
qed

lemma usd_simulateBody_remedy_cong:
  assumes "usd_igvEnabled v = usd_igvEnabled w" and "usd_iscEnabled v = usd_iscEnabled w"
    and "usd_perceptionEnabled v = usd_perceptionEnabled w" and "usd_iscRate v = usd_iscRate w"
    and "usd_perceptionRate v = usd_perceptionRate w" and "usd_sdaUsd v = usd_sdaUsd w"
    and "\<And>acc. usd_remedy AD (usd_antidumpingUsd v) acc = usd_remedy AD (usd_antidumpingUsd w) acc"
    and "\<And>acc. usd_remedy CVD (usd_countervailingUsd v) acc
                = usd_remedy CVD (usd_countervailingUsd w) acc"
  shows "usd_simulateBody i p v = usd_simulateBody i p w"
  unfolding usd_simulateBody_def Let_def assms ..

lemma usd_zero_remedy_override:
  "usd_simulate input prof (opts\<lparr>usd_antidumpingUsd := Some 0\<rparr>)
     = usd_simulate input prof (opts\<lparr>usd_antidumpingUsd := None\<rparr>)"
  "usd_simulate input prof (opts\<lparr>usd_countervailingUsd := Some 0\<rparr>)
     = usd_simulate input prof (opts\<lparr>usd_countervailingUsd := None\<rparr>)"
proof -
  have a: "usd_simulateBody input prof (opts\<lparr>usd_antidumpingUsd := Some 0\<rparr>)
         = usd_simulateBody input prof (opts\<lparr>usd_antidumpingUsd := None\<rparr>)"
    by (rule usd_simulateBody_remedy_cong) (simp_all add: usd_remedy_def)
  have c: "usd_simulateBody input prof (opts\<lparr>usd_countervailingUsd := Some 0\<rparr>)
         = usd_simulateBody input prof (opts\<lparr>usd_countervailingUsd := None\<rparr>)"
    by (rule usd_simulateBody_remedy_cong) (simp_all add: usd_remedy_def)
  show "usd_simulate input prof (opts\<lparr>usd_antidumpingUsd := Some 0\<rparr>)
     = usd_simulate input prof (opts\<lparr>usd_antidumpingUsd := None\<rparr>)"
    by (simp add: usd_simulate_def a)
  show "usd_simulate input prof (opts\<lparr>usd_countervailingUsd := Some 0\<rparr>)
     = usd_simulate input prof (opts\<lparr>usd_countervailingUsd := None\<rparr>)"
    by (simp add: usd_simulate_def c)
qed

text \<open>
  Claim C10. In both engines a trade-remedy override of 0, antidumping or countervailing,
  gives the result that the same call gives without that override: the whole result is the
  same, and so are the itemized entries, the trade-remedy total and every later stage. Only
  a strictly positive amount contributes: in the multi-country engine an amount that is not
  positive changes nothing, and in the USD engine the same holds of every amount that the
  form route admits.
\<close>

theorem remedy_override_zero:
  "simulate input prof (Some (ovr\<lparr>antidumpingUsd := Some 0\<rparr>))
     = simulate input prof (Some (ovr\<lparr>antidumpingUsd := None\<rparr>))
   \<and> simulate input prof (Some (ovr\<lparr>countervailingUsd := Some 0\<rparr>))
     = simulate input prof (Some (ovr\<lparr>countervailingUsd := None\<rparr>))
   \<and> usd_simulate uinput uprof (opts\<lparr>usd_antidumpingUsd := Some 0\<rparr>)
     = usd_simulate uinput uprof (opts\<lparr>usd_antidumpingUsd := None\<rparr>)
   \<and> usd_simulate uinput uprof (opts\<lparr>usd_countervailingUsd := Some 0\<rparr>)
     = usd_simulate uinput uprof (opts\<lparr>usd_countervailingUsd := None\<rparr>)
   \<and> (v \<le> 0 \<longrightarrow>
        simulate input prof (Some (ovr\<lparr>antidumpingUsd := Some v\<rparr>))
          = simulate input prof (Some (ovr\<lparr>antidumpingUsd := None\<rparr>))
        \<and> simulate input prof (Some (ovr\<lparr>countervailingUsd := Some v\<rparr>))
          = simulate input prof (Some (ovr\<lparr>countervailingUsd := None\<rparr>)))
   \<and> (usd_formSchema_remedies (opts\<lparr>usd_antidumpingUsd := Some a\<rparr>) \<and> a \<le> 0 \<longrightarrow>
        usd_simulate uinput uprof (opts\<lparr>usd_antidumpingUsd := Some a\<rparr>)
          = usd_simulate uinput uprof (opts\<lparr>usd_antidumpingUsd := None\<rparr>))
   \<and> (usd_formSchema_remedies (opts\<lparr>usd_countervailingUsd := Some c\<rparr>) \<and> c \<le> 0 \<longrightarrow>
        usd_simulate uinput uprof (opts\<lparr>usd_countervailingUsd := Some c\<rparr>)
          = usd_simulate uinput uprof (opts\<lparr>usd_countervailingUsd := None\<rparr>))"
proof -
  have multi: "w \<le> 0 \<longrightarrow>
        simulate input prof (Some (ovr\<lparr>antidumpingUsd := Some w\<rparr>))
          = simulate input prof (Some (ovr\<lparr>antidumpingUsd := None\<rparr>))
        \<and> simulate input prof (Some (ovr\<lparr>countervailingUsd := Some w\<rparr>))
          = simulate input prof (Some (ovr\<lparr>countervailingUsd := None\<rparr>))" for w
    using nonpositive_remedy_override [of w input prof ovr] by simp
  have ad: "usd_formSchema_remedies (opts\<lparr>usd_antidumpingUsd := Some a\<rparr>) \<and> a \<le> 0 \<longrightarrow>
        usd_simulate uinput uprof (opts\<lparr>usd_antidumpingUsd := Some a\<rparr>)
          = usd_simulate uinput uprof (opts\<lparr>usd_antidumpingUsd := None\<rparr>)"
  proof
    assume "usd_formSchema_remedies (opts\<lparr>usd_antidumpingUsd := Some a\<rparr>) \<and> a \<le> 0"
    then have "a = 0" by (simp add: usd_formSchema_remedies_def)
    then show "usd_simulate uinput uprof (opts\<lparr>usd_antidumpingUsd := Some a\<rparr>)
          = usd_simulate uinput uprof (opts\<lparr>usd_antidumpingUsd := None\<rparr>)"
      by (simp add: usd_zero_remedy_override)
  qed
  have cvd: "usd_formSchema_remedies (opts\<lparr>usd_countervailingUsd := Some c\<rparr>) \<and> c \<le> 0 \<longrightarrow>
        usd_simulate uinput uprof (opts\<lparr>usd_countervailingUsd := Some c\<rparr>)
          = usd_simulate uinput uprof (opts\<lparr>usd_countervailingUsd := None\<rparr>)"
  proof
    assume "usd_formSchema_remedies (opts\<lparr>usd_countervailingUsd := Some c\<rparr>) \<and> c \<le> 0"
    then have "c = 0" by (simp add: usd_formSchema_remedies_def)
    then show "usd_simulate uinput uprof (opts\<lparr>usd_countervailingUsd := Some c\<rparr>)
          = usd_simulate uinput uprof (opts\<lparr>usd_countervailingUsd := None\<rparr>)"
      by (simp add: usd_zero_remedy_override)
  qed
  from multi [of 0] multi [of v] ad cvd usd_zero_remedy_override [of uinput uprof opts]
  show ?thesis by simp
qed

lemma c10_eval:
  "simulate w_input w_prof (Some (c10_overrides\<lparr>antidumpingUsd := None\<rparr>)) = Inr w_result"
  "usd_simulate c8_input c8_prof (c8_opts\<lparr>usd_antidumpingUsd := None\<rparr>) = Inr c8_result"
  "usd_simulate c8_input c8_prof (c8_opts\<lparr>usd_countervailingUsd := None\<rparr>) = Inr c8_result"
  by code_simp+

theorem remedy_override_zero_witness:
  "(- 50 :: rat) \<le> 0
   \<and> simulate w_input w_prof (Some (c10_overrides\<lparr>antidumpingUsd := Some (- 50)\<rparr>)) = Inr w_result
   \<and> simulate w_input w_prof None = Inr w_result
   \<and> usd_formSchema_remedies (c8_opts\<lparr>usd_antidumpingUsd := Some 0\<rparr>) \<and> (0 :: rat) \<le> 0
   \<and> usd_simulate c8_input c8_prof (c8_opts\<lparr>usd_antidumpingUsd := Some 0\<rparr>) = Inr c8_result
   \<and> usd_formSchema_remedies (c8_opts\<lparr>usd_countervailingUsd := Some 0\<rparr>)
   \<and> usd_simulate c8_input c8_prof (c8_opts\<lparr>usd_countervailingUsd := Some 0\<rparr>) = Inr c8_result
   \<and> usd_simulate c8_input c8_prof c8_opts = Inr c8_result"
  using remedy_override_zero [of w_input w_prof c10_overrides c8_input c8_prof c8_opts "- 50" 0 0]
    c10_eval w_eval c8_eval
  by (simp add: usd_formSchema_remedies_def c8_opts_def)

section \<open>Profitability margins\<close>

lemma toFixed2_0: "toFixed2 0 = 0"
  by (simp add: toFixed2_def floor_eq_iff)

lemma zero_sales_margins:
  "margen_bruto_porcentaje (calcularUtilidadBruta [] importaciones) = 0"
  "margen_operativo_porcentaje
     (calcularUtilidadOperativa (calcularUtilidadBruta [] importaciones) gastosOperativos) = 0"
  by (simp_all add: calcularUtilidadBruta_def calcularUtilidadOperativa_def Let_def toFixed2_0)

text \<open>
  Claim C4, at two study cases. The net margin is not computed on total sales but on gross
  profit plus operating expenses. With no sale, a cost of 100 and operating expenses of 300,
  total sales are 0 and the gross and operating margins are 0, but the net margin is -200.
  With sales of 1000, a cost of 600 and operating expenses of 100, the net profit is 300
  and the net margin is 60, not 30.
\<close>

theorem net_margin_base:
  "ventas_totales (calcularUtilidadBruta [] c4_importaciones) = 0
   \<and> margen_bruto_porcentaje (calcularUtilidadBruta [] c4_importaciones) = 0
   \<and> margen_operativo_porcentaje
        (calcularUtilidadOperativa (calcularUtilidadBruta [] c4_importaciones) (operativos c4_gastos)) = 0
   \<and> margen_neto_porcentaje (utilidadNetaDelCaso [] c4_importaciones c4_gastos) = - 200
   \<and> ventas_totales (calcularUtilidadBruta c4_exportaciones c4_compras) = 1000
   \<and> utilidad_neta (utilidadNetaDelCaso c4_exportaciones c4_compras c4_gastos_100) = 300
   \<and> margen_neto_porcentaje (utilidadNetaDelCaso c4_exportaciones c4_compras c4_gastos_100) = 60"
  by code_simp

section \<open>Perception in the USD engine\<close>

text \<open>
  The USD engine computes perception behind a toggle. With the toggle on it uses the same
  default table, base and amount as the multi-country engine (here in exact arithmetic);
  with it off, rate, base and amount are 0.
\<close>

lemma usd_perception_stage:
  assumes "usd_simulate input prof opts = Inr r"
  shows "usd_perceptionEnabled opts \<longrightarrow>
           (\<forall>q. usd_perceptionRate opts = Some q \<longrightarrow>
                usd_percepcion_rate r = q \<and> usd_percepcion_rule r = OverrideDePercepcion)
           \<and> (usd_perceptionRate opts = None \<longrightarrow>
                (usd_percepcion_rate r, usd_percepcion_rule r) =
                  (if usd_importerProfile input = Some public
                      \<or> usd_importerProfile input = Some amazon
                     then (0, ExcluidoRegimenEspecial)
                   else if usd_importerProfile input = Some first_import
                           \<or> usd_importerProfile input = Some no_habido
                     then (10 / 100, PrimeraImportacionNoHabido)
                   else if usd_isUsed input = Some True then (5 / 100, BienUsado)
                   else (35 / 1000, RegimenGeneral)))
           \<and> usd_percepcion_base r
                = usd_igv_base r + usd_igv_total r + usd_trade_remedies_total r
           \<and> usd_percepcion_amount r = round2 (usd_percepcion_base r * usd_percepcion_rate r)"
    and "\<not> usd_perceptionEnabled opts \<longrightarrow>
           usd_percepcion_rate r = 0 \<and> usd_percepcion_base r = 0 \<and> usd_percepcion_amount r = 0
           \<and> usd_percepcion_rule r = DeshabilitadoPorUsuario"
proof -
  from assms have r: "r = usd_simulateBody input prof opts"
    by (rule usd_simulate_Inr)
  have tot: "usd_igv_total r = usd_igv_igv16 r + usd_igv_ipm2 r"
    unfolding r by (subst usd_body_fields(7)) (intro round2_cents cents_add usd_body_cents)
  have rule: "usd_percepcion_rule r
      = (if usd_perceptionEnabled opts
         then (case usd_perceptionRate opts of
                 Some q \<Rightarrow> OverrideDePercepcion
               | None \<Rightarrow> snd (usd_defPerc input))
         else DeshabilitadoPorUsuario)"
    unfolding r by (simp add: usd_simulateBody_def Let_def)
  have base: "usd_perceptionEnabled opts \<longrightarrow>
      usd_percepcion_base r = usd_igv_base r + usd_igv_total r + usd_trade_remedies_total r"
    unfolding tot unfolding r
    by (simp add: usd_body_perception(3) round2_cents cents_add usd_body_cents)
  show "usd_perceptionEnabled opts \<longrightarrow>
           (\<forall>q. usd_perceptionRate opts = Some q \<longrightarrow>
                usd_percepcion_rate r = q \<and> usd_percepcion_rule r = OverrideDePercepcion)
           \<and> (usd_perceptionRate opts = None \<longrightarrow>
                (usd_percepcion_rate r, usd_percepcion_rule r) =
                  (if usd_importerProfile input = Some public
                      \<or> usd_importerProfile input = Some amazon
                     then (0, ExcluidoRegimenEspecial)
                   else if usd_importerProfile input = Some first_import
                           \<or> usd_importerProfile input = Some no_habido
                     then (10 / 100, PrimeraImportacionNoHabido)
                   else if usd_isUsed input = Some True then (5 / 100, BienUsado)
                   else (35 / 1000, RegimenGeneral)))
           \<and> usd_percepcion_base r
                = usd_igv_base r + usd_igv_total r + usd_trade_remedies_total r
           \<and> usd_percepcion_amount r = round2 (usd_percepcion_base r * usd_percepcion_rate r)"
    using base unfolding rule unfolding r
    by (simp add: usd_body_perception(2,4) usd_defPerc_def truthy_iff)
  show "\<not> usd_perceptionEnabled opts \<longrightarrow>
           usd_percepcion_rate r = 0 \<and> usd_percepcion_base r = 0 \<and> usd_percepcion_amount r = 0
           \<and> usd_percepcion_rule r = DeshabilitadoPorUsuario"
    unfolding rule unfolding r by (simp add: usd_body_perception)
qed

section \<open>The rounding arithmetic\<close>

text \<open>
  \<open>exponent\<close> is the binary exponent: \<open>2\<^sup>e \<le> x < 2\<^sup>e\<^sup>+\<^sup>1\<close>. The rules that follow evaluate
  \<open>binary64\<close> at a numeral or a fraction of numerals.
\<close>

lemma bitlen_pos:
  assumes "0 < p"
  shows "1 \<le> bitlen p"
proof -
  from assms have "bitlen p \<noteq> 0" by (simp add: bitlen_eq_zero_iff)
  with bitlen_nonneg [of p] show ?thesis by linarith
qed

lemma pow2_bitlen:
  assumes "0 < p"
  shows "(2::rat) powi (bitlen p - 1) \<le> of_int p" and "of_int p < (2::rat) powi bitlen p"
proof -
  note b1 = bitlen_pos [OF assms]
  from bitlen_bounds [OF assms] have lo: "2 ^ nat (bitlen p - 1) \<le> p" and hi: "p < 2 ^ nat (bitlen p)"
    by simp_all
  have "(2::rat) powi (bitlen p - 1) = of_int (2 ^ nat (bitlen p - 1))"
    using b1 by (simp add: power_int_def)
  also have "\<dots> \<le> of_int p" using lo by (simp only: of_int_le_iff)
  finally show "(2::rat) powi (bitlen p - 1) \<le> of_int p" .
  have "of_int p < (of_int (2 ^ nat (bitlen p)) :: rat)" using hi by (simp only: of_int_less_iff)
  also have "\<dots> = 2 powi bitlen p" using b1 by (simp add: power_int_def)
  finally show "of_int p < (2::rat) powi bitlen p" .
qed

lemma ratio_bounds:
  assumes "0 < p" and "0 < q"
  shows "(2::rat) powi (bitlen p - bitlen q - 1) < of_int p / of_int q"
    and "of_int p / of_int q < (2::rat) powi (bitlen p - bitlen q + 1)"
proof -
  have qp: "(0::rat) < of_int q" and pp: "(0::rat) < of_int p" using assms by simp_all
  have "(2::rat) powi (bitlen p - bitlen q - 1) * of_int q < 2 powi (bitlen p - bitlen q - 1) * 2 powi bitlen q"
    using pow2_bitlen(2) [OF assms(2)] by (simp add: mult_strict_left_mono)
  also have "\<dots> = 2 powi (bitlen p - 1)"
    by (simp add: power_int_add [symmetric])
  also have "\<dots> \<le> of_int p" by (rule pow2_bitlen(1) [OF assms(1)])
  finally show "(2::rat) powi (bitlen p - bitlen q - 1) < of_int p / of_int q"
    using qp by (simp add: pos_less_divide_eq)
  have "of_int p < (2::rat) powi bitlen p" by (rule pow2_bitlen(2) [OF assms(1)])
  also have "\<dots> = 2 powi (bitlen p - bitlen q + 1) * 2 powi (bitlen q - 1)"
    by (simp add: power_int_add [symmetric])
  also have "\<dots> \<le> 2 powi (bitlen p - bitlen q + 1) * of_int q"
    using pow2_bitlen(1) [OF assms(2)] by (simp add: mult_left_mono)
  finally show "of_int p / of_int q < (2::rat) powi (bitlen p - bitlen q + 1)"
    using qp by (simp add: pos_divide_less_eq)
qed

lemma exponent_unique:
  assumes "(2::rat) powi e \<le> x" and "x < 2 powi (e + 1)"
    and "(2::rat) powi e' \<le> x" and "x < 2 powi (e' + 1)"
  shows "e = e'"
proof (rule ccontr)
  assume "e \<noteq> e'"
  then consider "e + 1 \<le> e'" | "e' + 1 \<le> e" by linarith
  then show False
  proof cases
    case 1
    then have "(2::rat) powi (e + 1) \<le> 2 powi e'" by (simp add: power_int_increasing)
    with assms(2,3) show False by linarith
  next
    case 2
    then have "(2::rat) powi (e' + 1) \<le> 2 powi e" by (simp add: power_int_increasing)
    with assms(1,4) show False by linarith
  qed
qed

lemma exponent_ratio:
  assumes "0 < p" and "0 < q"
  defines "x \<equiv> (of_int p / of_int q :: rat)"
  defines "e \<equiv> bitlen p - bitlen q"
  shows "2 powi (if 2 powi e \<le> x then e else e - 1) \<le> x"
    and "x < 2 powi ((if 2 powi e \<le> x then e else e - 1) + 1)"
  using ratio_bounds [OF assms(1,2)] unfolding x_def e_def
  by (auto simp: algebra_simps less_imp_le)

lemma exponent_bounds:
  assumes "0 < x"
  shows "2 powi exponent x \<le> x" and "x < 2 powi (exponent x + 1)"
proof -
  obtain p q where pq: "quotient_of x = (p, q)" by (cases "quotient_of x")
  then have q: "0 < q" and x: "x = of_int p / of_int q"
    by (simp_all add: quotient_of_denom_pos quotient_of_div)
  with assms have p: "0 < p" by (simp add: zero_less_divide_iff)
  from exponent_ratio [OF p q]
  show "2 powi exponent x \<le> x" and "x < 2 powi (exponent x + 1)"
    unfolding exponent_def pq x [symmetric] by (simp_all add: Let_def)
qed

lemma exponent_eqI:
  assumes "(2::rat) powi e \<le> x" and "x < 2 powi (e + 1)"
  shows "exponent x = e"
proof -
  have "(0::rat) < 2 powi e" by simp
  with assms(1) have "0 < x" by linarith
  from exponent_bounds [OF this] assms show ?thesis
    by (blast intro: exponent_unique)
qed

lemma exponent_of_ratio:
  assumes "0 < p" and "0 < q"
  shows "exponent (of_int p / of_int q)
           = (if (2::rat) powi (bitlen p - bitlen q) \<le> of_int p / of_int q
              then bitlen p - bitlen q else bitlen p - bitlen q - 1)"
  by (rule exponent_eqI) (use exponent_ratio [OF assms] in auto)

lemma exponent_numeral_div:
  "exponent (numeral a / numeral b)
     = (if (2::rat) powi (bitlen (numeral a) - bitlen (numeral b)) \<le> numeral a / numeral b
        then bitlen (numeral a) - bitlen (numeral b)
        else bitlen (numeral a) - bitlen (numeral b) - 1)"
  using exponent_of_ratio [of "numeral a" "numeral b"] by simp

lemma exponent_numeral: "exponent (numeral a) = bitlen (numeral a) - 1"
proof (rule exponent_eqI)
  show "(2::rat) powi (bitlen (numeral a) - 1) \<le> numeral a"
    using pow2_bitlen(1) [of "numeral a"] by simp
  show "(numeral a :: rat) < 2 powi (bitlen (numeral a) - 1 + 1)"
    using pow2_bitlen(2) [of "numeral a"] by simp
qed

lemma exponent_one_div_numeral:
  "exponent (1 / numeral b)
     = (if (2::rat) powi (1 - bitlen (numeral b)) \<le> 1 / numeral b
        then 1 - bitlen (numeral b) else - bitlen (numeral b))"
  using exponent_of_ratio [of 1 "numeral b"] by (simp add: compute_bitlen [of 1])

lemma exponent_1: "exponent 1 = 0"
  by (rule exponent_eqI) simp_all

lemma bitlen_numeral: "bitlen (numeral k) = bitlen (numeral k div 2) + 1"
  by (subst compute_bitlen) simp

lemma bitlen_1: "bitlen 1 = 1"
  by (subst compute_bitlen) simp

lemma floor_rat_numeral: "\<lfloor>(numeral a :: rat) / numeral b\<rfloor> = numeral a div numeral b"
  using floor_divide_of_int_eq [of "numeral a" "numeral b", where ?'a = rat] by simp

lemma roundHalfEven_unfold:
  "roundHalfEven q =
     (if q - of_int \<lfloor>q\<rfloor> < 1 / 2 then \<lfloor>q\<rfloor>
      else if 1 / 2 < q - of_int \<lfloor>q\<rfloor> then \<lfloor>q\<rfloor> + 1
      else if even \<lfloor>q\<rfloor> then \<lfloor>q\<rfloor> else \<lfloor>q\<rfloor> + 1)"
  by (simp add: roundHalfEven_def Let_def)

lemma binary64_pos:
  assumes "0 < x"
  shows "binary64 x = of_int (roundHalfEven (x / 2 powi (exponent x - 52))) * 2 powi (exponent x - 52)"
  using assms by (simp add: binary64_def Let_def)

lemma binary64_0: "binary64 0 = 0"
  by (simp add: binary64_def)

lemma binary64_minus: "binary64 (- x) = - binary64 x"
  by (simp add: binary64_def Let_def)

text \<open>Evaluation rules, for numerals only.\<close>

lemmas fp_eval =
  binary64_0 binary64_minus
  binary64_pos [of "numeral a / numeral b", simplified]
  binary64_pos [of "numeral a", simplified]
  binary64_pos [of "1 / numeral b", simplified]
  binary64_pos [of 1, simplified]
  roundHalfEven_unfold [of "numeral a / numeral b"]
  roundHalfEven_unfold [of "numeral a"]
  roundHalfEven_unfold [of "1 / numeral b"]
  exponent_numeral_div exponent_numeral exponent_one_div_numeral exponent_1
  bitlen_numeral bitlen_1 floor_rat_numeral
  for a b

lemmas fp_defs = round2_fp_def plus_fp_def times_fp_def divide_fp_def Math_round_def EPSILON_def


text \<open>
  Checks of \<open>binary64\<close> against what doubles do: 0.1 + 0.2 is 0.30000000000000004, not the
  double 0.3; the rounded 10.075 is 10.07, because the double 10.075 lies below the decimal
  tie; the rounded 1.005 is 1.01, through \<^verbatim>\<open>Number.EPSILON\<close>.
\<close>

lemma binary64_checks:
  "plus_fp binary64 (binary64 (1 / 10)) (binary64 (2 / 10)) = 5404319552844596 / 2 ^ 54"
  "plus_fp binary64 (binary64 (1 / 10)) (binary64 (2 / 10)) \<noteq> binary64 (3 / 10)"
  "round2_fp binary64 (binary64 (10075 / 1000)) = binary64 (1007 / 100)"
  "round2_fp binary64 (binary64 (1005 / 1000)) = binary64 (101 / 100)"
  by (simp_all add: fp_defs fp_eval)

text \<open>With the identity for \<open>fl\<close> the engines of this section are the exact engines.\<close>

lemma round2_fp_id: "round2_fp (\<lambda>x. x) n = round2 n"
  by (simp add: round2_fp_def round2_def plus_fp_def times_fp_def divide_fp_def)

lemma cifUSD_fp_id: "cifUSD_fp (\<lambda>x. x) input = cifUSD input"
  by (simp add: cifUSD_fp_def cifUSD_def plus_fp_def split: option.split)

lemma usd_cifUsd_fp_id: "usd_cifUsd_fp (\<lambda>x. x) input = usd_cifUsd input"
  by (simp add: usd_cifUsd_fp_def usd_cifUsd_def plus_fp_def split: option.split)

lemma defaultPerception_fp_id: "defaultPerception_fp (\<lambda>x. x) profile used = defaultPerception profile used"
  by (simp add: defaultPerception_fp_def defaultPerception_def)

lemma usd_defPerc_fp_id: "usd_defPerc_fp (\<lambda>x. x) input = usd_defPerc input"
  by (simp add: usd_defPerc_fp_def usd_defPerc_def)

lemma iscStage_fp_id: "iscStage_fp (\<lambda>x. x) input prof c d = iscStage input prof c d"
  unfolding iscStage_fp_def iscStage_def round2_fp_id plus_fp_def times_fp_def ..

lemma remediesLoop_fp_id: "remediesLoop_fp (\<lambda>x. x) c q rs acc = remediesLoop c q rs acc"
proof (induction rs arbitrary: acc)
  case Nil
  show ?case by simp
next
  case (Cons t rs)
  obtain total items where acc: "acc = (total, items)" by (cases acc)
  show ?case
    unfolding acc by (simp add: Let_def Cons.IH round2_fp_id plus_fp_def times_fp_def)
qed

lemma remedyOverride_fp_id: "remedyOverride_fp (\<lambda>x. x) t usd fx acc = remedyOverride t usd fx acc"
  unfolding remedyOverride_fp_def remedyOverride_def round2_fp_id plus_fp_def times_fp_def ..

lemma usd_remedy_fp_id: "usd_remedy_fp (\<lambda>x. x) t usd acc = usd_remedy t usd acc"
  unfolding usd_remedy_fp_def usd_remedy_def round2_fp_id plus_fp_def ..

lemma simulateBody_fp_id: "simulateBody_fp (\<lambda>x. x) input prof overrides fx = simulateBody input prof overrides fx"
  unfolding simulateBody_fp_def simulateBody_def round2_fp_id cifUSD_fp_id iscStage_fp_id
    remediesLoop_fp_id remedyOverride_fp_id defaultPerception_fp_id plus_fp_def times_fp_def ..

lemma simulate_fp_id: "simulate_fp (\<lambda>x. x) input prof overrides = simulate input prof overrides"
  unfolding simulate_fp_def simulate_def simulateBody_fp_id cifUSD_fp_id ..

lemma usd_simulateBody_fp_id: "usd_simulateBody_fp (\<lambda>x. x) input prof opts = usd_simulateBody input prof opts"
  unfolding usd_simulateBody_fp_def usd_simulateBody_def round2_fp_id usd_cifUsd_fp_id
    usd_remedy_fp_id usd_defPerc_fp_id plus_fp_def times_fp_def ..

lemma usd_simulate_fp_id: "usd_simulate_fp (\<lambda>x. x) input prof opts = usd_simulate input prof opts"
  unfolding usd_simulate_fp_def usd_simulate_def usd_simulateBody_fp_id usd_cifUsd_fp_id ..








section \<open>Two scenarios in doubles\<close>



































section \<open>Totals under the rounding arithmetic\<close>




section \<open>Perception under the rounding arithmetic\<close>




end
